theory Spec2Isabelle
  imports Complex_Main "HOL-Library.Char_ord" "HOL-Library.List_Lexorder"
begin

section \<open>Data model\<close>

text \<open>
  A pandas \<open>Timestamp\<close> is modelled by its calendar fields; the time of day plays no
  part in any operation of the pipeline (month-end resampling, \<open>.month\<close>, \<open>.year\<close>,
  \<open>.quarter\<close>, \<open>strftime("%Y-%m-%d")\<close>).
\<close>

record date =
  year :: nat
  month :: nat
  day :: nat

definition is_leap :: "nat \<Rightarrow> bool" where
  "is_leap y \<longleftrightarrow> y mod 4 = 0 \<and> (y mod 100 \<noteq> 0 \<or> y mod 400 = 0)"

definition days_in_month :: "nat \<Rightarrow> nat \<Rightarrow> nat" where
  "days_in_month y m =
     (if m = 2 then (if is_leap y then 29 else 28)
      else if m = 4 \<or> m = 6 \<or> m = 9 \<or> m = 11 then 30 else 31)"

text \<open>
  The values a \<open>Timestamp\<close> can hold: a real calendar day, in the years pandas'
  nanosecond clock reaches (1677 to 2262).
\<close>

definition wf_date :: "date \<Rightarrow> bool" where
  "wf_date d \<longleftrightarrow>
     1677 \<le> year d \<and> year d \<le> 2262 \<and> 1 \<le> month d \<and> month d \<le> 12 \<and>
     1 \<le> day d \<and> day d \<le> days_in_month (year d) (month d)"

definition date_lt :: "date \<Rightarrow> date \<Rightarrow> bool" where
  "date_lt a b \<longleftrightarrow>
     year a < year b \<or>
     (year a = year b \<and> (month a < month b \<or> (month a = month b \<and> day a < day b)))"

definition date_le :: "date \<Rightarrow> date \<Rightarrow> bool" where
  "date_le a b \<longleftrightarrow> date_lt a b \<or> a = b"

text \<open>
  The tidy table handed over by \<open>load_data\<close>: the four columns the pipeline reads.
  \<open>Sales\<close> is a float in the source; sums are taken in exact arithmetic here.
\<close>

record row =
  Order_Date :: date
  Sales :: real
  Category :: string
  Region :: string

type_synonym table = "row list"

text \<open>A \<open>pd.Series\<close> with a \<open>DatetimeIndex\<close>: index labels paired with values, in order.\<close>

type_synonym series = "(date \<times> real) list"

section \<open>Series aggregator (\<open>src/data_processing.py\<close>)\<close>

text \<open>\<open>Index.min()\<close> and \<open>Index.max()\<close>; \<open>None\<close> stands for \<open>NaT\<close> on an empty index.\<close>

fun index_min :: "date list \<Rightarrow> date option" where
  "index_min [] = None"
| "index_min (d # ds) = Some (foldl (\<lambda>a b. if date_lt b a then b else a) d ds)"

fun index_max :: "date list \<Rightarrow> date option" where
  "index_max [] = None"
| "index_max (d # ds) = Some (foldl (\<lambda>a b. if date_lt a b then b else a) d ds)"

text \<open>Months counted from year 0, and the last calendar day of such a month.\<close>

definition month_index :: "date \<Rightarrow> nat" where
  "month_index d = 12 * year d + (month d - 1)"

definition month_end :: "nat \<Rightarrow> date" where
  "month_end k =
     \<lparr>year = k div 12, month = k mod 12 + 1, day = days_in_month (k div 12) (k mod 12 + 1)\<rparr>"

text \<open>
  \<open>Series.resample('ME').sum()\<close>: one bin per calendar month from the month of the
  first timestamp to the month of the last, labelled with the month's last day. The
  bins start at 0 and every entry is added to the bin of its month, in input order.
\<close>

fun add_to_bin :: "nat \<Rightarrow> real list \<Rightarrow> date \<times> real \<Rightarrow> real list" where
  "add_to_bin lo bins (d, v) = (let i = month_index d - lo in bins[i := bins ! i + v])"

definition resample_ME_sum :: "series \<Rightarrow> series" where
  "resample_ME_sum s =
     (case (index_min (map fst s), index_max (map fst s)) of
        (Some t_first, Some t_last) \<Rightarrow>
          let lo = month_index t_first;
              hi = month_index t_last;
              bins = foldl (add_to_bin lo) (replicate (hi + 1 - lo) 0) s
          in zip (map month_end [lo ..< hi + 1]) bins
      | _ \<Rightarrow> [])"

text \<open>
  \<open>ts[start:]\<close> by label on a \<open>DatetimeIndex\<close>: the entries whose label is not before
  \<open>start\<close>. The source only slices a non-empty series, so \<open>start\<close> is never \<open>NaT\<close>.
\<close>

definition slice_from :: "date option \<Rightarrow> series \<Rightarrow> series" where
  "slice_from start ts =
     (case start of None \<Rightarrow> ts | Some s \<Rightarrow> filter (\<lambda>(d, v). date_le s d) ts)"

text \<open>Lines 28 to 33 of \<open>aggregate_sales\<close>: the two optional boolean-mask filters.\<close>

definition df_filtered :: "table \<Rightarrow> string \<Rightarrow> string \<Rightarrow> table" where
  "df_filtered df category region =
     (let f = df;
          f = (if category \<noteq> ''All Categories'' then filter (\<lambda>r. Category r = category) f
               else f);
          f = (if region \<noteq> ''All Regions'' then filter (\<lambda>r. Region r = region) f else f)
      in f)"

text \<open>\<open>df.set_index('Order_Date')['Sales']\<close>: the sales column indexed by order date.\<close>

definition sales_by_date :: "table \<Rightarrow> series" where
  "sales_by_date rows = map (\<lambda>r. (Order_Date r, Sales r)) rows"

definition aggregate_sales :: "table option \<Rightarrow> string \<Rightarrow> string \<Rightarrow> series \<times> bool" where
  "aggregate_sales df category region =
     (case df of
        None \<Rightarrow> ([], False)
      | Some rows \<Rightarrow>
          let f = df_filtered rows category region in
          if f = [] then ([], False)
          else
            let ts_monthly = resample_ME_sum (sales_by_date f);
                ts_monthly = slice_from (index_min (map fst ts_monthly)) ts_monthly
            in (ts_monthly, True))"

text \<open>
  The monthly series as the specification words it, to be compared with
  \<open>aggregate_sales\<close>: one entry per calendar month from the month of the earliest row
  to the month of the latest, dated at the month's end, holding the sum of the sales
  of the rows of that month.
\<close>

definition first_month :: "table \<Rightarrow> nat" where
  "first_month f = Min (set (map (\<lambda>r. month_index (Order_Date r)) f))"

definition last_month :: "table \<Rightarrow> nat" where
  "last_month f = Max (set (map (\<lambda>r. month_index (Order_Date r)) f))"

definition month_total :: "table \<Rightarrow> nat \<Rightarrow> real" where
  "month_total f k = sum_list (map Sales (filter (\<lambda>r. month_index (Order_Date r) = k) f))"

definition monthly_totals :: "table \<Rightarrow> series" where
  "monthly_totals f =
     map (\<lambda>k. (month_end k, month_total f k)) [first_month f ..< last_month f + 1]"

section \<open>Feature deriver (\<open>create_features_for_ml\<close>)\<close>

text \<open>
  A float column of a \<open>DataFrame\<close> is a list of cells, \<open>None\<close> for \<open>NaN\<close>.
  \<open>Series.shift(n)\<close> moves the cells down by \<open>n\<close> places and keeps the length;
  \<open>bfill\<close> gives each missing cell the next present value below it, if there is one.
\<close>

definition shift :: "nat \<Rightarrow> 'a option list \<Rightarrow> 'a option list" where
  "shift n col = take (length col) (replicate n None @ col)"

fun bfill :: "'a option list \<Rightarrow> 'a option list" where
  "bfill [] = []"
| "bfill (Some v # rest) = Some v # bfill rest"
| "bfill (None # rest) = (case bfill rest of [] \<Rightarrow> [None] | c # cs \<Rightarrow> c # c # cs)"

definition quarter_of :: "nat \<Rightarrow> nat" where
  "quarter_of m = (m - 1) div 3 + 1"

record feature_row =
  feat_month :: nat
  feat_year :: nat
  feat_quarter :: nat
  lag_12 :: "real option"

text \<open>
  The calendar columns are integer columns without missing cells, which \<open>df.bfill()\<close>
  leaves as they are; the two float columns \<open>Sales\<close> and \<open>lag_12\<close> go through \<open>bfill\<close>.
  The result is \<open>(X, y)\<close>: the frame without \<open>Sales\<close>, and the \<open>Sales\<close> column.
\<close>

definition create_features_for_ml :: "series \<Rightarrow> feature_row list \<times> real option list" where
  "create_features_for_ml ts_data =
     (let idx = map fst ts_data;
          sales_col = map (\<lambda>(d, v). Some v) ts_data;
          lag_col = shift 12 sales_col;
          sales_col = bfill sales_col;
          lag_col = bfill lag_col;
          X = map (\<lambda>(d, l). \<lparr>feat_month = month d, feat_year = year d,
                               feat_quarter = quarter_of (month d), lag_12 = l\<rparr>)
                  (zip idx lag_col)
      in (X, sales_col))"

section \<open>Loading (\<open>load_data\<close>)\<close>

text \<open>
  What the \<open>try\<close> block can raise: \<open>FileNotFoundError\<close>, or any other exception,
  kept with its message \<open>str(e)\<close>.
\<close>

datatype exn = FileNotFoundError | OtherException string

definition str_replace :: "char \<Rightarrow> char \<Rightarrow> string \<Rightarrow> string" where
  "str_replace old new s = map (\<lambda>c. if c = old then new else c) s"

text \<open>
  The file system and the Excel parser are outside the program: \<open>read_excel\<close> is the
  outcome of \<open>pd.read_excel(FILE_NAME)\<close> (the column names and the cells), and
  \<open>to_datetime\<close> the conversion of the renamed frame into the tidy table, which may
  raise as well.
\<close>

definition load_failure :: "string \<Rightarrow> exn \<Rightarrow> table option \<times> string" where
  "load_failure FILE_NAME e =
     (case e of
        FileNotFoundError \<Rightarrow> (None, ''Error: Archivo no encontrado en: '' @ FILE_NAME)
      | OtherException msg \<Rightarrow> (None, ''Error al cargar datos: '' @ msg))"

definition load_data ::
  "string \<Rightarrow> (exn + string list \<times> 'b) \<Rightarrow> (string list \<Rightarrow> 'b \<Rightarrow> exn + table) \<Rightarrow>
     table option \<times> string" where
  "load_data FILE_NAME read_excel to_datetime =
     (case read_excel of
        Inl e \<Rightarrow> load_failure FILE_NAME e
      | Inr (cols, cells) \<Rightarrow>
          let cols = map (str_replace (CHR '' '') (CHR ''_'')) cols;
              cols = map (str_replace (CHR ''-'') (CHR ''_'')) cols
          in (case to_datetime cols cells of
                Inl e \<Rightarrow> load_failure FILE_NAME e
              | Inr df \<Rightarrow> (Some df, ''Success'')))"

section \<open>Request layer (\<open>api_service.py\<close>)\<close>

text \<open>Python values as the endpoints build them: strings, floats, lists and dicts.\<close>

datatype pyval =
    PStr string
  | PNum real
  | PNaN
  | PList "pyval list"
  | PDict "(string \<times> pyval) list"

text \<open>An endpoint either returns a value or raises.\<close>

datatype py_error = KeyError string

datatype outcome =
    Return pyval
  | HTTPException nat pyval
  | Uncaught py_error

text \<open>
  \<open>strftime("%Y-%m-%d")\<close>: the year in decimal, month and day padded to two digits.
\<close>

definition digit_char :: "nat \<Rightarrow> char" where
  "digit_char n = ''0123456789'' ! n"

fun dec :: "nat \<Rightarrow> string" where
  "dec n = (if n < 10 then [digit_char n] else dec (n div 10) @ [digit_char (n mod 10)])"

declare dec.simps [simp del]

definition pad2 :: "nat \<Rightarrow> string" where
  "pad2 n = (if n < 10 then CHR ''0'' # dec n else dec n)"

definition strftime :: "date \<Rightarrow> string" where
  "strftime d = dec (year d) @ ''-'' @ pad2 (month d) @ ''-'' @ pad2 (day d)"

definition is_digit :: "char \<Rightarrow> bool" where
  "is_digit c \<longleftrightarrow> c \<in> set ''0123456789''"

text \<open>The shape \<open>YYYY-MM-DD\<close>: ten characters, digits around two hyphens.\<close>

definition is_YYYY_MM_DD :: "string \<Rightarrow> bool" where
  "is_YYYY_MM_DD s \<longleftrightarrow>
     (case s of
        [y1, y2, y3, y4, h1, m1, m2, h2, d1, d2] \<Rightarrow>
          is_digit y1 \<and> is_digit y2 \<and> is_digit y3 \<and> is_digit y4 \<and> h1 = CHR ''-'' \<and>
          is_digit m1 \<and> is_digit m2 \<and> h2 = CHR ''-'' \<and> is_digit d1 \<and> is_digit d2
      | _ \<Rightarrow> False)"

text \<open>
  Modelled from the spec: the frame returned by \<open>get_sarima_forecast\<close> and
  \<open>get_xgboost_forecast\<close> (\<open>src/sarima_model.py\<close> and \<open>src/xgboost_model.py\<close>, not part
  of the sources at hand): one row per future month, an unnamed \<open>DatetimeIndex\<close> and the
  columns \<open>Sales Forecast\<close>, \<open>Lower Bound\<close>, \<open>Upper Bound\<close>, the bounds possibly missing.
\<close>

record forecast_row =
  fc_date :: date
  sales_forecast :: real
  lower_bound :: "real option"
  upper_bound :: "real option"

type_synonym forecast_df = "forecast_row list"

text \<open>
  The four imported model functions are parameters of the request layer. A backtest
  returns a dict.
\<close>

record strategies =
  get_sarima_forecast :: "series \<Rightarrow> int \<Rightarrow> forecast_df option \<times> string"
  get_xgboost_forecast :: "series \<Rightarrow> int \<Rightarrow> forecast_df option \<times> string"
  run_backtest_sarima :: "series \<Rightarrow> nat \<Rightarrow> (string \<times> pyval) list"
  run_backtest_xgboost :: "series \<Rightarrow> nat \<Rightarrow> (string \<times> pyval) list"

text \<open>The module-level globals set at import time: \<open>DF_RAW, STATUS = load_data()\<close>.\<close>

record app_state =
  DF_RAW :: "table option"
  STATUS :: string

definition CATEGORIES :: "table \<Rightarrow> string list" where
  "CATEGORIES df = ''All Categories'' # sort (remdups (map Category df))"

definition REGIONS :: "table \<Rightarrow> string list" where
  "REGIONS df = ''All Regions'' # sort (remdups (map Region df))"

definition opt_num :: "real option \<Rightarrow> pyval" where
  "opt_num x = (case x of None \<Rightarrow> PNaN | Some v \<Rightarrow> PNum v)"

text \<open>Dict lookup \<open>d[k]\<close> and assignment \<open>d[k] = v\<close>.\<close>

fun dict_get :: "(string \<times> pyval) list \<Rightarrow> string \<Rightarrow> py_error + pyval" where
  "dict_get [] k = Inl (KeyError k)"
| "dict_get ((k', v) # kvs) k = (if k' = k then Inr v else dict_get kvs k)"

fun dict_set :: "(string \<times> pyval) list \<Rightarrow> string \<Rightarrow> pyval \<Rightarrow> (string \<times> pyval) list" where
  "dict_set [] k v = [(k, v)]"
| "dict_set ((k', v') # kvs) k v =
     (if k' = k then (k, v) # kvs else (k', v') # dict_set kvs k v)"

definition read_root :: outcome where
  "read_root = Return (PDict [(''message'',
     PStr ''Welcome to the Retail Forecasting API. Access /docs for documentation.'')])"

text \<open>The accented letter of the message is two bytes in UTF-8.\<close>

definition get_filters :: "app_state \<Rightarrow> outcome" where
  "get_filters st =
     (case DF_RAW st of
        None \<Rightarrow> HTTPException 500
          (PStr (''Datos no cargados. Raz'' @ [char_of (195::nat), char_of (179::nat)] @ ''n: ''
                 @ STATUS st))
      | Some df \<Rightarrow>
          Return (PDict [(''categories'', PList (map PStr (CATEGORIES df))),
                         (''regions'', PList (map PStr (REGIONS df)))]))"

definition history_json :: "series \<Rightarrow> pyval" where
  "history_json ts_history =
     PDict [(''index'', PList (map (\<lambda>(i, v). PStr (strftime i)) ts_history)),
            (''data'', PList (map (\<lambda>(i, v). PNum v) ts_history))]"

text \<open>
  \<open>forecast_df.index.strftime(...)\<close>, \<open>reset_index()\<close>, the renaming of \<open>index\<close> to
  \<open>Date\<close> and \<open>to_dict(orient='records')\<close>: one dict per row.
\<close>

definition forecast_json :: "forecast_df \<Rightarrow> pyval" where
  "forecast_json forecast =
     PList (map (\<lambda>r. PDict [(''Date'', PStr (strftime (fc_date r))),
                             (''Sales Forecast'', PNum (sales_forecast r)),
                             (''Lower Bound'', opt_num (lower_bound r)),
                             (''Upper Bound'', opt_num (upper_bound r))]) forecast)"

definition bad_model_type :: outcome where
  "bad_model_type =
     HTTPException 400
       (PStr (''model_type debe ser '' @ [CHR 0x27] @ ''sarima'' @ [CHR 0x27] @ '' o ''
              @ [CHR 0x27] @ ''xgboost'' @ [CHR 0x27]))"

definition no_data_found :: "string \<Rightarrow> string \<Rightarrow> outcome" where
  "no_data_found category region =
     Return (PDict [(''status'', PStr ''error''),
                    (''message'', PStr (''No data found for '' @ category @ ''/'' @ region @ ''.''))])"

definition load_error :: "app_state \<Rightarrow> outcome" where
  "load_error st = HTTPException 500 (PStr (''Error de carga de datos inicial: '' @ STATUS st))"

definition sales_forecast_endpoint ::
  "strategies \<Rightarrow> app_state \<Rightarrow> string \<Rightarrow> string \<Rightarrow> string \<Rightarrow> int \<Rightarrow> outcome" where
  "sales_forecast_endpoint m st model_type category region steps =
     (if DF_RAW st = None then load_error st
      else
        let (ts_history, data_available) = aggregate_sales (DF_RAW st) category region in
        if \<not> data_available then no_data_found category region
        else
          let routed =
                (if model_type = ''sarima'' then Some (get_sarima_forecast m ts_history steps)
                 else if model_type = ''xgboost'' then Some (get_xgboost_forecast m ts_history steps)
                 else None)
          in (case routed of
               None \<Rightarrow> bad_model_type
             | Some (forecast, status) \<Rightarrow>
                 (case (if status \<noteq> ''Success'' then None else forecast) of
                    None \<Rightarrow>
                      HTTPException 400
                        (PStr (''Error en el modelo '' @ model_type @ '': '' @ status))
                  | Some fc \<Rightarrow>
                      Return (PDict [(''status'', PStr ''success''),
                                     (''model_used'', PStr model_type),
                                     (''history'', history_json ts_history),
                                     (''forecast'', forecast_json fc)]))))"

definition sales_evaluation_endpoint ::
  "strategies \<Rightarrow> app_state \<Rightarrow> string \<Rightarrow> string \<Rightarrow> string \<Rightarrow> outcome" where
  "sales_evaluation_endpoint m st model_type category region =
     (if DF_RAW st = None then load_error st
      else
        let (ts_history, data_available) = aggregate_sales (DF_RAW st) category region in
        if \<not> data_available then no_data_found category region
        else
          let routed =
                (if model_type = ''sarima'' then Some (run_backtest_sarima m ts_history 12)
                 else if model_type = ''xgboost'' then Some (run_backtest_xgboost m ts_history 12)
                 else None)
          in (case routed of
               None \<Rightarrow> bad_model_type
             | Some metrics \<Rightarrow>
                 (case dict_get metrics ''status'' of
                    Inl e \<Rightarrow> Uncaught e
                  | Inr s \<Rightarrow>
                      if s \<noteq> PStr ''Success'' then
                        (case dict_get metrics ''message'' of
                           Inl e \<Rightarrow> Uncaught e
                         | Inr msg \<Rightarrow> HTTPException 400 msg)
                      else Return (PDict (dict_set metrics ''model_used'' (PStr model_type))))))"

text \<open>The four routes of the application.\<close>

datatype request =
    GetRoot
  | GetConfigFilters
  | GetSalesForecast string string string int
  | GetSalesEvaluation string string string

fun handle :: "strategies \<Rightarrow> app_state \<Rightarrow> request \<Rightarrow> outcome" where
  "handle m st GetRoot = read_root"
| "handle m st GetConfigFilters = get_filters st"
| "handle m st (GetSalesForecast model_type category region steps) =
     sales_forecast_endpoint m st model_type category region steps"
| "handle m st (GetSalesEvaluation model_type category region) =
     sales_evaluation_endpoint m st model_type category region"

text \<open>Process start: the globals are whatever \<open>load_data\<close> returned.\<close>

definition startup ::
  "string \<Rightarrow> (exn + string list \<times> 'b) \<Rightarrow> (string list \<Rightarrow> 'b \<Rightarrow> exn + table) \<Rightarrow> app_state" where
  "startup FILE_NAME read_excel to_datetime =
     (let (df, status) = load_data FILE_NAME read_excel to_datetime
      in \<lparr>DF_RAW = df, STATUS = status\<rparr>)"

section \<open>Reading a response\<close>

text \<open>
  What a client reads from the body of a forecast response: the entries of
  \<open>history.index\<close>, and the \<open>Date\<close> field of every forecast record.
\<close>

definition history_index :: "(string \<times> pyval) list \<Rightarrow> pyval list option" where
  "history_index body =
     (case map_of body ''history'' of
        Some (PDict h) \<Rightarrow> (case map_of h ''index'' of Some (PList idx) \<Rightarrow> Some idx | _ \<Rightarrow> None)
      | _ \<Rightarrow> None)"

definition record_date :: "pyval \<Rightarrow> pyval option" where
  "record_date r = (case r of PDict kvs \<Rightarrow> map_of kvs ''Date'' | _ \<Rightarrow> None)"

definition forecast_dates :: "(string \<times> pyval) list \<Rightarrow> pyval list option" where
  "forecast_dates body =
     (case map_of body ''forecast'' of
        Some (PList recs) \<Rightarrow> those (map record_date recs)
      | _ \<Rightarrow> None)"

definition is_date_string :: "pyval \<Rightarrow> bool" where
  "is_date_string v = (case v of PStr s \<Rightarrow> is_YYYY_MM_DD s | _ \<Rightarrow> False)"

text \<open>
  The index of a frame returned by a model function holds timestamps: whatever the two
  forecast functions return, its dates are calendar dates.
\<close>

definition forecast_dates_wf :: "strategies \<Rightarrow> bool" where
  "forecast_dates_wf m \<longleftrightarrow>
     (\<forall>ts steps fc s. get_sarima_forecast m ts steps = (Some fc, s) \<longrightarrow>
        list_all (\<lambda>r. wf_date (fc_date r)) fc) \<and>
     (\<forall>ts steps fc s. get_xgboost_forecast m ts steps = (Some fc, s) \<longrightarrow>
        list_all (\<lambda>r. wf_date (fc_date r)) fc)"

section \<open>Backtest metric\<close>

text \<open>
  Modelled from the spec: the MAPE of the backtest harness (\<open>run_backtest_sarima\<close> and
  \<open>run_backtest_xgboost\<close>, in modules that are not part of the sources at hand). The
  months with a zero actual are left out; when every actual is zero the result is an
  error instead of a number.
\<close>

datatype metric_error = AllActualsZero

definition mape :: "real list \<Rightarrow> real list \<Rightarrow> metric_error + real" where
  "mape actual predicted =
     (let used = filter (\<lambda>(a, p). a \<noteq> 0) (zip actual predicted)
      in if used = [] then Inl AllActualsZero
         else Inr (sum_list (map (\<lambda>(a, p). \<bar>a - p\<bar> / a) used) / real (length used) * 100))"

section \<open>Concrete inputs\<close>

text \<open>A small table: three orders over five months, two categories, two regions.\<close>

definition example_table :: table where
  "example_table =
     [\<lparr>Order_Date = \<lparr>year = 2014, month = 1, day = 15\<rparr>, Sales = 10,
       Category = ''Furniture'', Region = ''West''\<rparr>,
      \<lparr>Order_Date = \<lparr>year = 2014, month = 4, day = 2\<rparr>, Sales = 5,
       Category = ''Technology'', Region = ''East''\<rparr>,
      \<lparr>Order_Date = \<lparr>year = 2013, month = 12, day = 31\<rparr>, Sales = 7,
       Category = ''Furniture'', Region = ''East''\<rparr>]"

text \<open>Thirteen month-ends from January 2014 with the sales 1, 2, ..., 13.\<close>

definition example_series :: series where
  "example_series = map (\<lambda>k. (month_end (24168 + k), real k + 1)) [0 ..< 13]"

text \<open>Model functions that succeed with a one-row forecast and a two-entry metrics dict.\<close>

definition example_strategies :: strategies where
  "example_strategies =
     \<lparr>get_sarima_forecast = (\<lambda>ts steps.
        (Some [\<lparr>fc_date = \<lparr>year = 2014, month = 5, day = 31\<rparr>, sales_forecast = 8,
                 lower_bound = Some 6, upper_bound = Some 9\<rparr>], ''Success'')),
      get_xgboost_forecast = (\<lambda>ts steps.
        (Some [\<lparr>fc_date = \<lparr>year = 2014, month = 5, day = 31\<rparr>, sales_forecast = 7,
                 lower_bound = None, upper_bound = None\<rparr>], ''Success'')),
      run_backtest_sarima = (\<lambda>ts test_months.
        [(''status'', PStr ''Success''), (''mape'', PNum 12)]),
      run_backtest_xgboost = (\<lambda>ts test_months.
        [(''status'', PStr ''Success''), (''mape'', PNum 15)])\<rparr>"

definition example_state :: app_state where
  "example_state = \<lparr>DF_RAW = Some example_table, STATUS = ''Success''\<rparr>"

text \<open>The body of the forecast response for Furniture in all regions with \<open>sarima\<close>.\<close>

definition example_body :: "(string \<times> pyval) list" where
  "example_body =
     [(''status'', PStr ''success''),
      (''model_used'', PStr ''sarima''),
      (''history'', PDict [(''index'', PList [PStr ''2013-12-31'', PStr ''2014-01-31'']),
                           (''data'', PList [PNum 7, PNum 10])]),
      (''forecast'', PList [PDict [(''Date'', PStr ''2014-05-31''),
                                   (''Sales Forecast'', PNum 8),
                                   (''Lower Bound'', PNum 6),
                                   (''Upper Bound'', PNum 9)]])]"

section \<open>Auxiliary facts\<close>

lemma date_lt_irrefl: "\<not> date_lt a a"
  by (simp add: date_lt_def)

lemma date_lt_trans: "date_lt a b \<Longrightarrow> date_lt b c \<Longrightarrow> date_lt a c"
  by (auto simp: date_lt_def)

lemma date_total: "date_lt a b \<or> a = b \<or> date_lt b a"
  by (cases a; cases b) (auto simp: date_lt_def)

lemma date_le_refl: "date_le a a"
  by (simp add: date_le_def)

lemma date_le_trans: "date_le a b \<Longrightarrow> date_le b c \<Longrightarrow> date_le a c"
  by (auto simp: date_le_def dest: date_lt_trans)

lemma not_date_lt: "\<not> date_lt b a \<Longrightarrow> date_le a b"
  using date_total [of a b] by (auto simp: date_le_def)

lemma foldl_min_props:
  "date_le (foldl (\<lambda>a b. if date_lt b a then b else a) d ds) d \<and>
   (\<forall>x\<in>set ds. date_le (foldl (\<lambda>a b. if date_lt b a then b else a) d ds) x) \<and>
   foldl (\<lambda>a b. if date_lt b a then b else a) d ds \<in> set (d # ds)"
proof (induction ds arbitrary: d)
  case Nil
  show ?case by (simp add: date_le_refl)
next
  case (Cons x xs)
  define e where "e = (if date_lt x d then x else d)"
  define F where "F = foldl (\<lambda>a b. if date_lt b a then b else a) e xs"
  have step: "foldl (\<lambda>a b. if date_lt b a then b else a) d (x # xs) = F"
    by (simp add: F_def e_def)
  have ih: "date_le F e" "\<forall>y\<in>set xs. date_le F y" "F \<in> set (e # xs)"
    using Cons.IH [of e] by (simp_all add: F_def)
  have ed: "date_le e d" and ex: "date_le e x"
    by (simp_all add: e_def date_le_def not_date_lt [unfolded date_le_def])
  have "date_le F d" using ih(1) ed by (rule date_le_trans)
  moreover have "date_le F x" using ih(1) ex by (rule date_le_trans)
  moreover have "F \<in> set (d # x # xs)" using ih(3) by (auto simp: e_def)
  ultimately show ?case unfolding step using ih(2) by simp
qed

lemma foldl_max_props:
  "date_le d (foldl (\<lambda>a b. if date_lt a b then b else a) d ds) \<and>
   (\<forall>x\<in>set ds. date_le x (foldl (\<lambda>a b. if date_lt a b then b else a) d ds)) \<and>
   foldl (\<lambda>a b. if date_lt a b then b else a) d ds \<in> set (d # ds)"
proof (induction ds arbitrary: d)
  case Nil
  show ?case by (simp add: date_le_refl)
next
  case (Cons x xs)
  define e where "e = (if date_lt d x then x else d)"
  define F where "F = foldl (\<lambda>a b. if date_lt a b then b else a) e xs"
  have step: "foldl (\<lambda>a b. if date_lt a b then b else a) d (x # xs) = F"
    by (simp add: F_def e_def)
  have ih: "date_le e F" "\<forall>y\<in>set xs. date_le y F" "F \<in> set (e # xs)"
    using Cons.IH [of e] by (simp_all add: F_def)
  have ed: "date_le d e" and ex: "date_le x e"
    by (simp_all add: e_def date_le_def not_date_lt [unfolded date_le_def])
  have "date_le d F" using ed ih(1) by (rule date_le_trans)
  moreover have "date_le x F" using ex ih(1) by (rule date_le_trans)
  moreover have "F \<in> set (d # x # xs)" using ih(3) by (auto simp: e_def)
  ultimately show ?case unfolding step using ih(2) by simp
qed

lemma index_min_Some:
  assumes "index_min ds = Some m"
  shows "m \<in> set ds" and "\<And>x. x \<in> set ds \<Longrightarrow> date_le m x"
proof -
  obtain d rest where ds: "ds = d # rest"
    using assms by (cases ds) auto
  have m: "m = foldl (\<lambda>a b. if date_lt b a then b else a) d rest"
    using assms ds by simp
  show "m \<in> set ds" using foldl_min_props [of d rest] m ds by simp
  show "\<And>x. x \<in> set ds \<Longrightarrow> date_le m x"
    using foldl_min_props [of d rest] m ds by auto
qed

lemma index_max_Some:
  assumes "index_max ds = Some m"
  shows "m \<in> set ds" and "\<And>x. x \<in> set ds \<Longrightarrow> date_le x m"
proof -
  obtain d rest where ds: "ds = d # rest"
    using assms by (cases ds) auto
  have m: "m = foldl (\<lambda>a b. if date_lt a b then b else a) d rest"
    using assms ds by simp
  show "m \<in> set ds" using foldl_max_props [of d rest] m ds by simp
  show "\<And>x. x \<in> set ds \<Longrightarrow> date_le x m"
    using foldl_max_props [of d rest] m ds by auto
qed

lemma slice_from_index_min: "slice_from (index_min (map fst ts)) ts = ts"
proof (cases "index_min (map fst ts)")
  case None
  then show ?thesis by (simp add: slice_from_def)
next
  case (Some m)
  have "\<And>e. e \<in> set ts \<Longrightarrow> date_le m (fst e)"
    using index_min_Some(2) [OF Some] by simp
  then have "filter (\<lambda>(d, v). date_le m d) ts = ts"
    by (intro filter_True) (auto simp: case_prod_beta)
  then show ?thesis using Some by (simp add: slice_from_def)
qed


lemma aggregate_sales_unsliced:
  "df_filtered rows category region \<noteq> [] \<Longrightarrow>
   aggregate_sales (Some rows) category region =
     (resample_ME_sum (sales_by_date (df_filtered rows category region)), True)"
  by (simp add: aggregate_sales_def Let_def slice_from_index_min)

lemma df_filtered_eq:
  "df_filtered df category region =
     filter (\<lambda>r. (category = ''All Categories'' \<or> Category r = category) \<and>
                 (region = ''All Regions'' \<or> Region r = region)) df"
  by (simp add: df_filtered_def Let_def)

lemma month_index_mono:
  assumes "date_le a b" "month a \<le> 12" "1 \<le> month b"
  shows "month_index a \<le> month_index b"
  using assms by (auto simp: date_le_def date_lt_def month_index_def)

lemma month_index_month_end: "month_index (month_end k) = k"
  by (simp add: month_index_def month_end_def)

lemma div_mod_12_less:
  fixes j k :: nat
  assumes "j < k"
  shows "j div 12 < k div 12 \<or> (j div 12 = k div 12 \<and> j mod 12 < k mod 12)"
proof (cases "j div 12 = k div 12")
  case True
  have j: "j = 12 * (j div 12) + j mod 12" and k: "k = 12 * (k div 12) + k mod 12"
    by simp_all
  have "12 * (k div 12) + j mod 12 < 12 * (k div 12) + k mod 12"
    using assms j k True by metis
  then have "j mod 12 < k mod 12" by (simp only: nat_add_left_cancel_less)
  then show ?thesis using True by simp
next
  case False
  have "j div 12 \<le> k div 12" using assms by (simp add: div_le_mono)
  then show ?thesis using False by simp
qed

lemma month_end_strict_mono: "j < k \<Longrightarrow> date_lt (month_end j) (month_end k)"
  using div_mod_12_less [of j k] by (auto simp: date_lt_def month_end_def)

lemma length_foldl_add_to_bin: "length (foldl (add_to_bin lo) bins s) = length bins"
  by (induction s arbitrary: bins) (auto simp: Let_def)

lemma foldl_add_to_bin_nth:
  assumes "\<forall>e\<in>set s. lo \<le> month_index (fst e)" "i < length bins"
  shows "foldl (add_to_bin lo) bins s ! i =
           bins ! i + sum_list (map snd (filter (\<lambda>e. month_index (fst e) = lo + i) s))"
  using assms
proof (induction s arbitrary: bins)
  case Nil
  then show ?case by simp
next
  case (Cons e s)
  obtain d v where e: "e = (d, v)" by (cases e)
  define bins' where "bins' = add_to_bin lo bins e"
  have len: "length bins' = length bins" by (simp add: bins'_def e Let_def)
  have lo: "lo \<le> month_index d" using Cons.prems(1) e by simp
  have hd: "bins' ! i = bins ! i + (if month_index d = lo + i then v else 0)"
    using Cons.prems(2) lo by (auto simp: bins'_def e Let_def nth_list_update)
  have "foldl (add_to_bin lo) bins (e # s) ! i = foldl (add_to_bin lo) bins' s ! i"
    by (simp add: bins'_def)
  also have "\<dots> = bins' ! i + sum_list (map snd (filter (\<lambda>e. month_index (fst e) = lo + i) s))"
    using Cons.IH [of bins'] Cons.prems len by simp
  finally show ?case using hd by (simp add: e)
qed

lemma map_fst_sales_by_date: "map fst (sales_by_date f) = map Order_Date f"
  by (simp add: sales_by_date_def comp_def)

lemma month_total_sales_by_date:
  "sum_list (map snd (filter (\<lambda>e. month_index (fst e) = k) (sales_by_date f))) = month_total f k"
  by (simp add: sales_by_date_def month_total_def filter_map comp_def)

lemma wf_date_month: "wf_date d \<Longrightarrow> 1 \<le> month d \<and> month d \<le> 12"
  by (simp add: wf_date_def)

lemma first_month_index_min:
  assumes "index_min (map Order_Date f) = Some m" "\<forall>r\<in>set f. wf_date (Order_Date r)"
  shows "first_month f = month_index m"
proof -
  have mem: "m \<in> set (map Order_Date f)" using assms(1) by (rule index_min_Some(1))
  have wfm: "wf_date m" using mem assms(2) by auto
  have "\<And>r. r \<in> set f \<Longrightarrow> month_index m \<le> month_index (Order_Date r)"
  proof -
    fix r assume r: "r \<in> set f"
    have "date_le m (Order_Date r)" using index_min_Some(2) [OF assms(1)] r by simp
    then show "month_index m \<le> month_index (Order_Date r)"
      using wf_date_month [OF wfm] wf_date_month [of "Order_Date r"] assms(2) r
      by (intro month_index_mono) auto
  qed
  moreover have "month_index m \<in> set (map (\<lambda>r. month_index (Order_Date r)) f)"
    using mem by auto
  ultimately show ?thesis
    unfolding first_month_def by (intro Min_eqI) auto
qed

lemma last_month_index_max:
  assumes "index_max (map Order_Date f) = Some m" "\<forall>r\<in>set f. wf_date (Order_Date r)"
  shows "last_month f = month_index m"
proof -
  have mem: "m \<in> set (map Order_Date f)" using assms(1) by (rule index_max_Some(1))
  have wfm: "wf_date m" using mem assms(2) by auto
  have "\<And>r. r \<in> set f \<Longrightarrow> month_index (Order_Date r) \<le> month_index m"
  proof -
    fix r assume r: "r \<in> set f"
    have "date_le (Order_Date r) m" using index_max_Some(2) [OF assms(1)] r by simp
    then show "month_index (Order_Date r) \<le> month_index m"
      using wf_date_month [OF wfm] wf_date_month [of "Order_Date r"] assms(2) r
      by (intro month_index_mono) auto
  qed
  moreover have "month_index m \<in> set (map (\<lambda>r. month_index (Order_Date r)) f)"
    using mem by auto
  ultimately show ?thesis
    unfolding last_month_def by (intro Max_eqI) auto
qed

lemma first_month_le:
  "r \<in> set f \<Longrightarrow> first_month f \<le> month_index (Order_Date r)"
  unfolding first_month_def by (intro Min_le) auto

lemma last_month_ge:
  "r \<in> set f \<Longrightarrow> month_index (Order_Date r) \<le> last_month f"
  unfolding last_month_def by (intro Max_ge) auto

lemma resample_ME_sum_monthly_totals:
  assumes ne: "f \<noteq> []" and wf: "\<forall>r\<in>set f. wf_date (Order_Date r)"
  shows "resample_ME_sum (sales_by_date f) = monthly_totals f"
proof -
  obtain r0 rest where f: "f = r0 # rest" using ne by (cases f) auto
  obtain dmin where dmin: "index_min (map Order_Date f) = Some dmin" by (simp add: f)
  obtain dmax where dmax: "index_max (map Order_Date f) = Some dmax" by (simp add: f)
  define lo where "lo = first_month f"
  define hi where "hi = last_month f"
  have lo: "month_index dmin = lo" using first_month_index_min [OF dmin wf] by (simp add: lo_def)
  have hi: "month_index dmax = hi" using last_month_index_max [OF dmax wf] by (simp add: hi_def)
  define bins where "bins = foldl (add_to_bin lo) (replicate (hi + 1 - lo) 0) (sales_by_date f)"
  have res: "resample_ME_sum (sales_by_date f) = zip (map month_end [lo ..< hi + 1]) bins"
    unfolding resample_ME_sum_def map_fst_sales_by_date dmin dmax
    by (simp add: lo hi Let_def bins_def)
  have len: "length bins = hi + 1 - lo"
    by (simp add: bins_def length_foldl_add_to_bin)
  have lower: "\<forall>e\<in>set (sales_by_date f). lo \<le> month_index (fst e)"
    using first_month_le [of _ f] by (auto simp: sales_by_date_def lo_def)
  have nth: "bins ! i = month_total f (lo + i)" if "i < hi + 1 - lo" for i
  proof -
    have "bins ! i = replicate (hi + 1 - lo) 0 ! i +
            sum_list (map snd (filter (\<lambda>e. month_index (fst e) = lo + i) (sales_by_date f)))"
      unfolding bins_def using lower that by (intro foldl_add_to_bin_nth) simp_all
    then show ?thesis using that by (simp add: month_total_sales_by_date)
  qed
  have "zip (map month_end [lo ..< hi + 1]) bins =
          map (\<lambda>k. (month_end k, month_total f k)) [lo ..< hi + 1]"
    by (rule nth_equalityI) (simp_all add: len nth del: upt_Suc)
  then show ?thesis using res by (simp add: monthly_totals_def lo_def hi_def)
qed

lemma first_le_last_month: "f \<noteq> [] \<Longrightarrow> first_month f \<le> last_month f"
proof -
  assume "f \<noteq> []"
  then obtain r where r: "r \<in> set f" by (cases f) auto
  show ?thesis using first_month_le [OF r] last_month_ge [OF r] by simp
qed

lemma first_month_attained: "f \<noteq> [] \<Longrightarrow> \<exists>r\<in>set f. month_index (Order_Date r) = first_month f"
proof -
  assume ne: "f \<noteq> []"
  have "first_month f \<in> set (map (\<lambda>r. month_index (Order_Date r)) f)"
    unfolding first_month_def using ne by (intro Min_in) auto
  then show ?thesis by auto
qed

lemma last_month_attained: "f \<noteq> [] \<Longrightarrow> \<exists>r\<in>set f. month_index (Order_Date r) = last_month f"
proof -
  assume ne: "f \<noteq> []"
  have "last_month f \<in> set (map (\<lambda>r. month_index (Order_Date r)) f)"
    unfolding last_month_def using ne by (intro Max_in) auto
  then show ?thesis by auto
qed

lemma length_monthly_totals: "length (monthly_totals f) = last_month f + 1 - first_month f"
  by (simp add: monthly_totals_def del: upt_Suc)

lemma nth_monthly_totals:
  "i < length (monthly_totals f) \<Longrightarrow>
   monthly_totals f ! i = (month_end (first_month f + i), month_total f (first_month f + i))"
  by (simp add: monthly_totals_def del: upt_Suc)

lemma sorted_monthly_totals: "sorted_wrt date_lt (map fst (monthly_totals f))"
proof -
  have "map fst (monthly_totals f) = map month_end [first_month f ..< last_month f + 1]"
    by (simp add: monthly_totals_def comp_def del: upt_Suc)
  moreover have "sorted_wrt (\<lambda>j k. date_lt (month_end j) (month_end k))
                   [first_month f ..< last_month f + 1]"
    by (rule sorted_wrt_mono_rel [where P = "(<)"]) (simp_all add: month_end_strict_mono del: upt_Suc)
  ultimately show ?thesis by (simp add: sorted_wrt_map del: upt_Suc)
qed

lemma month_end_is_last_day:
  "day (month_end k) = days_in_month (year (month_end k)) (month (month_end k))"
  by (simp add: month_end_def)

lemma length_bfill: "length (bfill col) = length col"
  by (induction col rule: bfill.induct) (auto split: list.splits)

lemma bfill_all_present: "bfill (map Some xs) = map Some xs"
  by (induction xs) auto

lemma bfill_leading_missing:
  "bfill (replicate n None @ map Some (x # xs)) = replicate n (Some x) @ map Some (x # xs)"
proof (induction n)
  case 0
  show ?case using bfill_all_present [of "x # xs"] by simp
next
  case (Suc n)
  show ?case
  proof (cases n)
    case 0
    then show ?thesis using Suc by simp
  next
    case (Suc k)
    then show ?thesis using Suc.IH by simp
  qed
qed

lemma bfill_all_missing: "bfill (replicate n None) = replicate n None"
proof (induction n)
  case 0
  show ?case by simp
next
  case (Suc n)
  then show ?case by (cases n) simp_all
qed

lemma shift_short:
  "length xs \<le> n \<Longrightarrow> shift n (map Some xs) = replicate (length xs) None"
  by (simp add: shift_def)

lemma shift_long:
  "n < length xs \<Longrightarrow>
   shift n (map Some xs) = replicate n None @ map Some (take (length xs - n) xs)"
  by (simp add: shift_def take_map)

lemma lag_col_long:
  assumes "n < length xs"
  shows "bfill (shift n (map Some xs)) =
           replicate n (Some (xs ! 0)) @ map Some (take (length xs - n) xs)"
proof -
  obtain x rest where xs: "xs = x # rest" using assms by (cases xs) auto
  obtain k where k: "length xs - n = Suc k" using assms by (cases "length xs - n") auto
  have "take (length xs - n) xs = x # take k rest" unfolding k by (simp add: xs)
  then show ?thesis
    using shift_long [OF assms] bfill_leading_missing [of n x "take k rest"] by (simp add: xs)
qed

lemma lag_col_short:
  "length xs \<le> n \<Longrightarrow> bfill (shift n (map Some xs)) = replicate (length xs) None"
  by (simp add: shift_short bfill_all_missing)

lemma create_features_unfold:
  "create_features_for_ml ts =
     (map (\<lambda>(d, l). \<lparr>feat_month = month d, feat_year = year d,
                      feat_quarter = quarter_of (month d), lag_12 = l\<rparr>)
          (zip (map fst ts) (bfill (shift 12 (map Some (map snd ts))))),
      map Some (map snd ts))"
proof -
  have eq: "map (\<lambda>(d, v). Some v) ts = map Some (map snd ts)"
    by (induction ts) auto
  show ?thesis
    unfolding create_features_for_ml_def Let_def eq bfill_all_present by (rule refl)
qed

lemma length_lag_col: "length (bfill (shift n col)) = length col"
  by (simp add: length_bfill shift_def)

lemma features_nth:
  assumes "i < length ts"
  shows "fst (create_features_for_ml ts) ! i =
           \<lparr>feat_month = month (fst (ts ! i)), feat_year = year (fst (ts ! i)),
            feat_quarter = quarter_of (month (fst (ts ! i))),
            lag_12 = bfill (shift 12 (map Some (map snd ts))) ! i\<rparr>"
  using assms by (simp add: create_features_unfold length_lag_col)

lemma lag_nth_late:
  assumes "12 \<le> i" "i < length xs"
  shows "bfill (shift 12 (map Some xs)) ! i = Some (xs ! (i - 12))"
proof -
  have "12 < length xs" using assms by simp
  then show ?thesis using assms by (simp add: lag_col_long nth_append)
qed

lemma lag_nth_early:
  assumes "i < 12" "13 \<le> length xs"
  shows "bfill (shift 12 (map Some xs)) ! i = Some (xs ! 0)"
proof -
  have "12 < length xs" using assms by simp
  then show ?thesis using assms by (simp add: lag_col_long nth_append)
qed

lemma lag_nth_short:
  assumes "i < length xs" "length xs \<le> 12"
  shows "bfill (shift 12 (map Some xs)) ! i = None"
  using assms by (simp add: lag_col_short)

lemma features_lag_late:
  assumes "12 \<le> i" "i < length ts"
  shows "lag_12 (fst (create_features_for_ml ts) ! i) = Some (snd (ts ! (i - 12)))"
proof -
  have "bfill (shift 12 (map Some (map snd ts))) ! i = Some (map snd ts ! (i - 12))"
    using assms by (intro lag_nth_late) simp_all
  moreover have "map snd ts ! (i - 12) = snd (ts ! (i - 12))"
    using assms by (intro nth_map) simp
  moreover have "lag_12 (fst (create_features_for_ml ts) ! i) =
                   bfill (shift 12 (map Some (map snd ts))) ! i"
    unfolding features_nth [OF assms(2)] by simp
  ultimately show ?thesis by simp
qed

lemma features_lag_early:
  assumes "13 \<le> length ts" "i < 12"
  shows "lag_12 (fst (create_features_for_ml ts) ! i) = Some (snd (ts ! 0))"
proof -
  have i: "i < length ts" using assms by simp
  have "bfill (shift 12 (map Some (map snd ts))) ! i = Some (map snd ts ! 0)"
    using assms by (intro lag_nth_early) simp_all
  moreover have "map snd ts ! 0 = snd (ts ! 0)"
    using assms by (intro nth_map) auto
  moreover have "lag_12 (fst (create_features_for_ml ts) ! i) =
                   bfill (shift 12 (map Some (map snd ts))) ! i"
    unfolding features_nth [OF i] by simp
  ultimately show ?thesis by simp
qed

lemma features_lag_short:
  assumes "length ts \<le> 12" "i < length ts"
  shows "lag_12 (fst (create_features_for_ml ts) ! i) = None"
proof -
  have "bfill (shift 12 (map Some (map snd ts))) ! i = None"
    using assms by (intro lag_nth_short) simp_all
  moreover have "lag_12 (fst (create_features_for_ml ts) ! i) =
                   bfill (shift 12 (map Some (map snd ts))) ! i"
    unfolding features_nth [OF assms(2)] by simp
  ultimately show ?thesis by simp
qed

lemma example_series_unfold:
  "example_series =
     [(month_end 24168, 1), (month_end 24169, 2), (month_end 24170, 3), (month_end 24171, 4),
      (month_end 24172, 5), (month_end 24173, 6), (month_end 24174, 7), (month_end 24175, 8),
      (month_end 24176, 9), (month_end 24177, 10), (month_end 24178, 11), (month_end 24179, 12),
      (month_end 24180, 13)]"
  unfolding example_series_def by (simp add: upt_rec)

lemma sum_list_filter_nth:
  "sum_list (map f (filter P xs)) = (\<Sum>i | i < length xs \<and> P (xs ! i). f (xs ! i))"
proof (induction xs rule: rev_induct)
  case Nil
  show ?case by simp
next
  case (snoc x xs)
  have split: "{i. i < length (xs @ [x]) \<and> P ((xs @ [x]) ! i)} =
               {i. i < length xs \<and> P (xs ! i)} \<union> (if P x then {length xs} else {})"
    by (auto simp: nth_append less_Suc_eq)
  have eq: "(\<Sum>i | i < length xs \<and> P (xs ! i). f ((xs @ [x]) ! i)) =
            (\<Sum>i | i < length xs \<and> P (xs ! i). f (xs ! i))"
    by (intro sum.cong) (auto simp: nth_append)
  show ?case
  proof (cases "P x")
    case True
    have "(\<Sum>i | i < length (xs @ [x]) \<and> P ((xs @ [x]) ! i). f ((xs @ [x]) ! i)) =
          (\<Sum>i\<in>insert (length xs) {i. i < length xs \<and> P (xs ! i)}. f ((xs @ [x]) ! i))"
      unfolding split using True by simp
    also have "\<dots> = f x + (\<Sum>i | i < length xs \<and> P (xs ! i). f ((xs @ [x]) ! i))"
      by (subst sum.insert) auto
    finally show ?thesis using snoc True eq by (simp add: add.commute)
  next
    case False
    then show ?thesis using snoc eq unfolding split by simp
  qed
qed

lemma length_filter_nth: "length (filter P xs) = card {i. i < length xs \<and> P (xs ! i)}"
  by (rule length_filter_conv_card)

lemma mape_index_form:
  "mape actual predicted =
     (if {i. i < length actual \<and> i < length predicted \<and> actual ! i \<noteq> 0} = {}
      then Inl AllActualsZero
      else Inr ((\<Sum>i | i < length actual \<and> i < length predicted \<and> actual ! i \<noteq> 0.
                   \<bar>actual ! i - predicted ! i\<bar> / actual ! i)
                / real (card {i. i < length actual \<and> i < length predicted \<and> actual ! i \<noteq> 0})
                * 100))"
proof -
  define xs where "xs = zip actual predicted"
  define P where "P = (\<lambda>(a :: real, p :: real). a \<noteq> 0)"
  define f where "f = (\<lambda>(a :: real, p :: real). \<bar>a - p\<bar> / a)"
  define I where "I = {i. i < length actual \<and> i < length predicted \<and> actual ! i \<noteq> 0}"
  have I: "{i. i < length xs \<and> P (xs ! i)} = I"
    by (auto simp: xs_def P_def I_def)
  have fin: "finite I" by (simp add: I_def)
  have len: "length (filter P xs) = card I"
    using length_filter_nth [of P xs] by (simp add: I)
  have "sum_list (map f (filter P xs)) = (\<Sum>i\<in>I. f (xs ! i))"
    using sum_list_filter_nth [of f P xs] by (simp add: I)
  also have "\<dots> = (\<Sum>i\<in>I. \<bar>actual ! i - predicted ! i\<bar> / actual ! i)"
    by (intro sum.cong) (auto simp: I_def xs_def f_def)
  finally have sum: "sum_list (map f (filter P xs)) =
      (\<Sum>i\<in>I. \<bar>actual ! i - predicted ! i\<bar> / actual ! i)" .
  have empty: "filter P xs = [] \<longleftrightarrow> I = {}"
    using len fin by (metis card_0_eq length_0_conv)
  have "mape actual predicted =
          (if filter P xs = [] then Inl AllActualsZero
           else Inr (sum_list (map f (filter P xs)) / real (length (filter P xs)) * 100))"
    by (simp add: mape_def Let_def xs_def P_def f_def)
  then show ?thesis
    unfolding empty sum len I_def by simp
qed

lemma dec_small: "n < 10 \<Longrightarrow> dec n = [digit_char n]"
  by (subst dec.simps) simp

lemma dec_step: "10 \<le> n \<Longrightarrow> dec n = dec (n div 10) @ [digit_char (n mod 10)]"
  by (subst dec.simps) simp

lemma dec_two: "10 \<le> n \<Longrightarrow> n < 100 \<Longrightarrow> dec n = [digit_char (n div 10), digit_char (n mod 10)]"
  by (simp add: dec_step dec_small)

lemma dec_three:
  "100 \<le> n \<Longrightarrow> n < 1000 \<Longrightarrow>
   dec n = [digit_char (n div 100), digit_char (n div 10 mod 10), digit_char (n mod 10)]"
  by (simp add: dec_step [of n] dec_two div_mult2_eq [symmetric])

lemma dec_four:
  "1000 \<le> n \<Longrightarrow> n < 10000 \<Longrightarrow>
   dec n = [digit_char (n div 1000), digit_char (n div 100 mod 10),
            digit_char (n div 10 mod 10), digit_char (n mod 10)]"
  by (simp add: dec_step [of n] dec_three div_mult2_eq [symmetric])

lemma is_digit_digit_char: "k < 10 \<Longrightarrow> is_digit (digit_char k)"
proof -
  assume "k < 10"
  then have "k < length ''0123456789''" by simp
  then have "''0123456789'' ! k \<in> set ''0123456789''" by (rule nth_mem)
  then show ?thesis unfolding is_digit_def digit_char_def .
qed

lemma pad2_digits:
  assumes "n < 100"
  shows "\<exists>a b. pad2 n = [a, b] \<and> is_digit a \<and> is_digit b"
proof (cases "n < 10")
  case True
  have "is_digit (CHR ''0'')" by (simp add: is_digit_def)
  then show ?thesis using True by (simp add: pad2_def dec_small is_digit_digit_char)
next
  case False
  then have "pad2 n = [digit_char (n div 10), digit_char (n mod 10)]"
    using assms by (simp add: pad2_def dec_two)
  moreover have "n div 10 < 10" using assms by simp
  ultimately show ?thesis by (simp add: is_digit_digit_char)
qed

lemma days_in_month_le: "days_in_month y m \<le> 31"
  by (simp add: days_in_month_def)

lemma strftime_format:
  assumes "wf_date d"
  shows "is_YYYY_MM_DD (strftime d)"
proof -
  have y: "1000 \<le> year d" "year d < 10000" and m: "month d < 100" and dd: "day d < 100"
    using assms days_in_month_le [of "year d" "month d"] by (auto simp: wf_date_def)
  obtain m1 m2 where pm: "pad2 (month d) = [m1, m2]" "is_digit m1" "is_digit m2"
    using pad2_digits [OF m] by auto
  obtain d1 d2 where pd: "pad2 (day d) = [d1, d2]" "is_digit d1" "is_digit d2"
    using pad2_digits [OF dd] by auto
  have q: "year d div 1000 < 10" using y by simp
  show ?thesis
    using q pm pd
    by (simp add: strftime_def dec_four [OF y] is_YYYY_MM_DD_def is_digit_digit_char)
qed

lemma wf_date_month_end:
  assumes "20124 \<le> k" "k \<le> 27155"
  shows "wf_date (month_end k)"
proof -
  have "1677 \<le> k div 12" using assms(1) by simp
  moreover have "k div 12 \<le> 2262" using assms(2) by simp
  moreover have "1 \<le> days_in_month (k div 12) (k mod 12 + 1)"
    by (simp add: days_in_month_def)
  ultimately show ?thesis by (simp add: wf_date_def month_end_def)
qed

lemma wf_date_month_index:
  assumes "wf_date d"
  shows "20124 \<le> month_index d \<and> month_index d \<le> 27155"
  using assms unfolding wf_date_def month_index_def by linarith

lemma monthly_totals_dates_wf:
  assumes ne: "f \<noteq> []" and wf: "\<forall>r\<in>set f. wf_date (Order_Date r)"
  shows "\<forall>e\<in>set (monthly_totals f). wf_date (fst e)"
proof -
  obtain r1 where r1: "r1 \<in> set f" "month_index (Order_Date r1) = first_month f"
    using first_month_attained [OF ne] by auto
  obtain r2 where r2: "r2 \<in> set f" "month_index (Order_Date r2) = last_month f"
    using last_month_attained [OF ne] by auto
  have lo: "20124 \<le> first_month f"
    using wf_date_month_index [of "Order_Date r1"] wf r1 by auto
  have hi: "last_month f \<le> 27155"
    using wf_date_month_index [of "Order_Date r2"] wf r2 by auto
  have "wf_date (month_end k)" if "first_month f \<le> k" "k < last_month f + 1" for k
    using that lo hi by (intro wf_date_month_end) simp_all
  then show ?thesis by (auto simp: monthly_totals_def simp del: upt_Suc)
qed

lemma aggregate_sales_empty:
  "df_filtered rows category region = [] \<Longrightarrow>
   aggregate_sales (Some rows) category region = ([], False)"
  by (simp add: aggregate_sales_def)

lemma forecast_endpoint_not_loaded:
  "DF_RAW st = None \<Longrightarrow>
   sales_forecast_endpoint m st model_type category region steps = load_error st"
  by (simp add: sales_forecast_endpoint_def)

lemma evaluation_endpoint_not_loaded:
  "DF_RAW st = None \<Longrightarrow>
   sales_evaluation_endpoint m st model_type category region = load_error st"
  by (simp add: sales_evaluation_endpoint_def)

lemma forecast_endpoint_no_data:
  "DF_RAW st = Some rows \<Longrightarrow> df_filtered rows category region = [] \<Longrightarrow>
   sales_forecast_endpoint m st model_type category region steps = no_data_found category region"
  by (simp add: sales_forecast_endpoint_def aggregate_sales_empty)

lemma evaluation_endpoint_no_data:
  "DF_RAW st = Some rows \<Longrightarrow> df_filtered rows category region = [] \<Longrightarrow>
   sales_evaluation_endpoint m st model_type category region = no_data_found category region"
  by (simp add: sales_evaluation_endpoint_def aggregate_sales_empty)

lemma forecast_endpoint_with_data:
  assumes "DF_RAW st = Some rows" "df_filtered rows category region \<noteq> []"
  shows "sales_forecast_endpoint m st model_type category region steps =
     (let ts_history = resample_ME_sum (sales_by_date (df_filtered rows category region)) in
      case (if model_type = ''sarima'' then Some (get_sarima_forecast m ts_history steps)
            else if model_type = ''xgboost'' then Some (get_xgboost_forecast m ts_history steps)
            else None) of
        None \<Rightarrow> bad_model_type
      | Some (forecast, status) \<Rightarrow>
          (case (if status \<noteq> ''Success'' then None else forecast) of
             None \<Rightarrow> HTTPException 400
                       (PStr (''Error en el modelo '' @ model_type @ '': '' @ status))
           | Some fc \<Rightarrow>
               Return (PDict [(''status'', PStr ''success''),
                              (''model_used'', PStr model_type),
                              (''history'', history_json ts_history),
                              (''forecast'', forecast_json fc)])))"
  using assms
  by (simp add: sales_forecast_endpoint_def aggregate_sales_unsliced Let_def)

lemma evaluation_endpoint_with_data:
  assumes "DF_RAW st = Some rows" "df_filtered rows category region \<noteq> []"
  shows "sales_evaluation_endpoint m st model_type category region =
     (let ts_history = resample_ME_sum (sales_by_date (df_filtered rows category region)) in
      case (if model_type = ''sarima'' then Some (run_backtest_sarima m ts_history 12)
            else if model_type = ''xgboost'' then Some (run_backtest_xgboost m ts_history 12)
            else None) of
        None \<Rightarrow> bad_model_type
      | Some metrics \<Rightarrow>
          (case dict_get metrics ''status'' of
             Inl e \<Rightarrow> Uncaught e
           | Inr s \<Rightarrow>
               if s \<noteq> PStr ''Success'' then
                 (case dict_get metrics ''message'' of
                    Inl e \<Rightarrow> Uncaught e
                  | Inr msg \<Rightarrow> HTTPException 400 msg)
               else Return (PDict (dict_set metrics ''model_used'' (PStr model_type)))))"
  using assms
  by (simp add: sales_evaluation_endpoint_def aggregate_sales_unsliced Let_def)

lemma bad_model_type_distinct:
  "bad_model_type \<noteq> load_error st" "bad_model_type \<noteq> no_data_found category region"
  by (simp_all add: bad_model_type_def load_error_def no_data_found_def)

lemma example_filters:
  "df_filtered example_table ''Technology'' ''West'' = []"
  "df_filtered example_table ''Furniture'' ''West'' \<noteq> []"
  "df_filtered example_table ''Furniture'' ''All Regions'' \<noteq> []"
  by (simp_all add: df_filtered_def example_table_def Let_def)

lemma load_failure_result:
  "fst (load_failure FILE_NAME e) = None \<and>
   snd (load_failure FILE_NAME e) \<noteq> ''Success'' \<and>
   (snd (load_failure FILE_NAME e) = ''Error: Archivo no encontrado en: '' @ FILE_NAME \<or>
    (\<exists>msg. snd (load_failure FILE_NAME e) = ''Error al cargar datos: '' @ msg))"
  by (cases e) (simp_all add: load_failure_def)

lemma load_data_cases:
  "(\<exists>e. load_data FILE_NAME read_excel to_datetime = load_failure FILE_NAME e) \<or>
   (\<exists>df. load_data FILE_NAME read_excel to_datetime = (Some df, ''Success''))"
  by (auto simp: load_data_def Let_def split: sum.splits prod.splits)

lemma load_data_failed:
  assumes "fst (load_data FILE_NAME read_excel to_datetime) = None"
  shows "\<exists>e. load_data FILE_NAME read_excel to_datetime = load_failure FILE_NAME e"
  using assms load_data_cases [of FILE_NAME read_excel to_datetime] by auto

lemma startup_fields:
  "DF_RAW (startup FILE_NAME read_excel to_datetime) =
     fst (load_data FILE_NAME read_excel to_datetime)"
  "STATUS (startup FILE_NAME read_excel to_datetime) =
     snd (load_data FILE_NAME read_excel to_datetime)"
  by (simp_all add: startup_def case_prod_beta)

lemma history_index_history_json:
  "history_index [(''status'', s), (''model_used'', u), (''history'', history_json ts),
                  (''forecast'', f)] =
     Some (map (\<lambda>e. PStr (strftime (fst e))) ts)"
  by (simp add: history_index_def history_json_def case_prod_beta)

lemma those_record_dates:
  "those (map record_date
            (map (\<lambda>r. PDict [(''Date'', PStr (strftime (fc_date r))),
                              (''Sales Forecast'', PNum (sales_forecast r)),
                              (''Lower Bound'', opt_num (lower_bound r)),
                              (''Upper Bound'', opt_num (upper_bound r))]) fc)) =
     Some (map (\<lambda>r. PStr (strftime (fc_date r))) fc)"
  by (induction fc) (simp_all add: record_date_def)

lemma forecast_dates_forecast_json:
  "forecast_dates [(''status'', s), (''model_used'', u), (''history'', h),
                   (''forecast'', forecast_json fc)] =
     Some (map (\<lambda>r. PStr (strftime (fc_date r))) fc)"
  unfolding forecast_dates_def forecast_json_def
  by (simp add: those_record_dates del: map_map)

lemma forecast_success_body:
  assumes st: "DF_RAW st = Some rows"
      and ok: "sales_forecast_endpoint m st model_type category region steps = Return (PDict body)"
      and status: "dict_get body ''status'' = Inr (PStr ''success'')"
  shows "df_filtered rows category region \<noteq> [] \<and>
         (\<exists>fc s. ((model_type = ''sarima'' \<and>
                     get_sarima_forecast m
                       (resample_ME_sum (sales_by_date (df_filtered rows category region))) steps =
                       (Some fc, s)) \<or>
                   (model_type = ''xgboost'' \<and>
                     get_xgboost_forecast m
                       (resample_ME_sum (sales_by_date (df_filtered rows category region))) steps =
                       (Some fc, s))) \<and>
                  body = [(''status'', PStr ''success''), (''model_used'', PStr model_type),
                          (''history'',
                           history_json
                             (resample_ME_sum (sales_by_date (df_filtered rows category region)))),
                          (''forecast'', forecast_json fc)])"
proof (cases "df_filtered rows category region = []")
  case True
  then show ?thesis
    using forecast_endpoint_no_data [OF st True, of m model_type steps] ok status
    by (simp add: no_data_found_def)
next
  case False
  show ?thesis
    using ok forecast_endpoint_with_data [OF st False, of m model_type steps] False
    by (auto simp: Let_def bad_model_type_def split: if_splits option.splits prod.splits)
qed

lemma example_table_wf: "list_all (\<lambda>r. wf_date (Order_Date r)) example_table"
  by (simp add: example_table_def wf_date_def days_in_month_def is_leap_def)

lemma example_history:
  "resample_ME_sum (sales_by_date (df_filtered example_table ''Furniture'' ''All Regions'')) =
     [(\<lparr>year = 2013, month = 12, day = 31\<rparr>, 7), (\<lparr>year = 2014, month = 1, day = 31\<rparr>, 10)]"
proof -
  have wf: "\<forall>r\<in>set (df_filtered example_table ''Furniture'' ''All Regions'').
              wf_date (Order_Date r)"
    using example_table_wf by (simp add: df_filtered_eq list_all_iff)
  have val: "monthly_totals (df_filtered example_table ''Furniture'' ''All Regions'') =
       [(\<lparr>year = 2013, month = 12, day = 31\<rparr>, 7), (\<lparr>year = 2014, month = 1, day = 31\<rparr>, 10)]"
    by (simp add: df_filtered_def example_table_def Let_def monthly_totals_def first_month_def
        last_month_def month_index_def month_total_def month_end_def days_in_month_def
        is_leap_def upt_rec [of 24167])
  show ?thesis
    using resample_ME_sum_monthly_totals [OF example_filters(3) wf] val by simp
qed

lemma example_strftime:
  "strftime \<lparr>year = 2013, month = 12, day = 31\<rparr> = ''2013-12-31''"
  "strftime \<lparr>year = 2014, month = 1, day = 31\<rparr> = ''2014-01-31''"
  "strftime \<lparr>year = 2014, month = 5, day = 31\<rparr> = ''2014-05-31''"
  "strftime \<lparr>year = 2014, month = Suc 0, day = 31\<rparr> = ''2014-01-31''"
  by code_simp+

lemma example_strategies_wf: "forecast_dates_wf example_strategies"
  by (auto simp: forecast_dates_wf_def example_strategies_def wf_date_def days_in_month_def)

lemma example_forecast_response:
  "sales_forecast_endpoint example_strategies example_state ''sarima'' ''Furniture''
     ''All Regions'' 12 = Return (PDict example_body)"
proof -
  have st: "DF_RAW example_state = Some example_table" by (simp add: example_state_def)
  show ?thesis
    unfolding forecast_endpoint_with_data [OF st example_filters(3)] example_history
    by (simp add: example_strategies_def history_json_def forecast_json_def example_strftime
        opt_num_def example_body_def)
qed

section \<open>The claims\<close>

text \<open>
  Claim C1. Whenever the selection keeps at least one row (and the order dates are calendar
  dates), \<open>aggregate_sales\<close> reports data and returns exactly the monthly totals: one entry
  for every calendar month from the month of the earliest kept order to the month of the
  latest, dated at the month's last day, whose value is the sum of \<open>Sales\<close> of the kept rows
  of that month (0 when the month has none). The dates increase strictly, consecutive
  entries are one month apart, and the first and the last month each hold a kept order.
\<close>

theorem aggregate_sales_monthly_series:
  assumes ne: "df_filtered rows category region \<noteq> []"
      and wf: "\<forall>r\<in>set (df_filtered rows category region). wf_date (Order_Date r)"
  shows "(let f = df_filtered rows category region;
              ts = fst (aggregate_sales (Some rows) category region)
          in snd (aggregate_sales (Some rows) category region) \<and>
             ts = monthly_totals f \<and>
             length ts = last_month f + 1 - first_month f \<and> ts \<noteq> [] \<and>
             (\<forall>i<length ts. fst (ts ! i) = month_end (first_month f + i) \<and>
                             snd (ts ! i) = month_total f (first_month f + i)) \<and>
             (\<forall>e\<in>set ts. day (fst e) = days_in_month (year (fst e)) (month (fst e))) \<and>
             sorted_wrt date_lt (map fst ts) \<and>
             (\<forall>i. Suc i < length ts \<longrightarrow>
                    month_index (fst (ts ! Suc i)) = Suc (month_index (fst (ts ! i)))) \<and>
             (\<exists>r\<in>set f. month_index (Order_Date r) = month_index (fst (hd ts))) \<and>
             (\<exists>r\<in>set f. month_index (Order_Date r) = month_index (fst (last ts))))"
proof -
  define f where "f = df_filtered rows category region"
  define ts where "ts = fst (aggregate_sales (Some rows) category region)"
  have agg: "aggregate_sales (Some rows) category region = (monthly_totals f, True)"
    using aggregate_sales_unsliced [OF ne] resample_ME_sum_monthly_totals [OF ne wf]
    by (simp add: f_def)
  have ts: "ts = monthly_totals f" by (simp add: ts_def agg)
  have fne: "f \<noteq> []" using ne by (simp add: f_def)
  have len: "length ts = last_month f + 1 - first_month f"
    by (simp add: ts length_monthly_totals)
  have pos: "0 < length ts" using len first_le_last_month [OF fne] by simp
  have nth: "ts ! i = (month_end (first_month f + i), month_total f (first_month f + i))"
    if "i < length ts" for i
    using that nth_monthly_totals [of i f] by (simp add: ts)
  have ends: "\<forall>e\<in>set ts. day (fst e) = days_in_month (year (fst e)) (month (fst e))"
    by (auto simp: ts monthly_totals_def month_end_is_last_day simp del: upt_Suc)
  have sorted: "sorted_wrt date_lt (map fst ts)"
    by (simp add: ts sorted_monthly_totals)
  have nogap: "\<forall>i. Suc i < length ts \<longrightarrow>
                 month_index (fst (ts ! Suc i)) = Suc (month_index (fst (ts ! i)))"
    by (simp add: nth month_index_month_end)
  have "hd ts = ts ! 0" using pos by (simp add: hd_conv_nth)
  then have hd: "month_index (fst (hd ts)) = first_month f"
    using nth [OF pos] by (simp add: month_index_month_end)
  have "last ts = ts ! (length ts - 1)" using pos by (simp add: last_conv_nth)
  moreover have "length ts - 1 < length ts" using pos by simp
  ultimately have "month_index (fst (last ts)) = first_month f + (length ts - 1)"
    using nth [of "length ts - 1"] by (simp only: fst_conv month_index_month_end)
  then have lst: "month_index (fst (last ts)) = last_month f"
    using len first_le_last_month [OF fne] by simp
  have c1: "snd (aggregate_sales (Some rows) category region)" by (simp add: agg)
  have c4: "ts \<noteq> []" using pos by auto
  have c5: "\<forall>i<length ts. fst (ts ! i) = month_end (first_month f + i) \<and>
                             snd (ts ! i) = month_total f (first_month f + i)"
    by (simp add: nth)
  have c9: "\<exists>r\<in>set f. month_index (Order_Date r) = month_index (fst (hd ts))"
    using first_month_attained [OF fne] by (simp only: hd)
  have c10: "\<exists>r\<in>set f. month_index (Order_Date r) = month_index (fst (last ts))"
    using last_month_attained [OF fne] by (simp only: lst)
  show ?thesis
    unfolding Let_def f_def [symmetric] ts_def [symmetric]
    by (intro conjI; fact c1 ts len c4 c5 ends sorted nogap c9 c10)
qed

theorem aggregate_sales_monthly_series_witness:
  "df_filtered example_table ''Furniture'' ''All Regions'' \<noteq> [] \<and>
   list_all (\<lambda>r. wf_date (Order_Date r))
     (df_filtered example_table ''Furniture'' ''All Regions'') \<and>
   aggregate_sales (Some example_table) ''Furniture'' ''All Regions'' =
     ([(\<lparr>year = 2013, month = 12, day = 31\<rparr>, 7), (\<lparr>year = 2014, month = 1, day = 31\<rparr>, 10)],
      True)"
proof -
  have ne: "df_filtered example_table ''Furniture'' ''All Regions'' \<noteq> []"
    by (simp add: df_filtered_def example_table_def Let_def)
  have wf: "\<forall>r\<in>set (df_filtered example_table ''Furniture'' ''All Regions'').
              wf_date (Order_Date r)"
    by (simp add: df_filtered_def example_table_def Let_def wf_date_def days_in_month_def
        is_leap_def)
  have val: "monthly_totals (df_filtered example_table ''Furniture'' ''All Regions'') =
       [(\<lparr>year = 2013, month = 12, day = 31\<rparr>, 7), (\<lparr>year = 2014, month = 1, day = 31\<rparr>, 10)]"
    by (simp add: df_filtered_def example_table_def Let_def monthly_totals_def first_month_def
        last_month_def month_index_def month_total_def month_end_def days_in_month_def
        is_leap_def upt_rec [of 24167])
  have "fst (aggregate_sales (Some example_table) ''Furniture'' ''All Regions'') =
          monthly_totals (df_filtered example_table ''Furniture'' ''All Regions'') \<and>
        snd (aggregate_sales (Some example_table) ''Furniture'' ''All Regions'')"
    using aggregate_sales_monthly_series [OF ne wf] by (simp add: Let_def)
  then have "aggregate_sales (Some example_table) ''Furniture'' ''All Regions'' =
      (monthly_totals (df_filtered example_table ''Furniture'' ''All Regions''), True)"
    by (cases "aggregate_sales (Some example_table) ''Furniture'' ''All Regions''") simp
  then show ?thesis using ne wf val by (simp add: list_all_iff)
qed

text \<open>
  Claim C8. \<open>aggregate_sales\<close> keeps a row exactly when the category selection is
  \<open>All Categories\<close> or equals the row's category, and the region selection is
  \<open>All Regions\<close> or equals the row's region; it reports data exactly when some row is kept.
\<close>

theorem aggregate_sales_filter_rule:
  "df_filtered df category region =
     filter (\<lambda>r. (category = ''All Categories'' \<or> Category r = category) \<and>
                 (region = ''All Regions'' \<or> Region r = region)) df \<and>
   (r \<in> set (df_filtered df category region) \<longleftrightarrow>
      r \<in> set df \<and> (category = ''All Categories'' \<or> Category r = category) \<and>
      (region = ''All Regions'' \<or> Region r = region)) \<and>
   (snd (aggregate_sales (Some df) category region) \<longleftrightarrow>
      (\<exists>r\<in>set df. (category = ''All Categories'' \<or> Category r = category) \<and>
                   (region = ''All Regions'' \<or> Region r = region)))"
proof -
  have eq: "df_filtered df category region =
     filter (\<lambda>r. (category = ''All Categories'' \<or> Category r = category) \<and>
                 (region = ''All Regions'' \<or> Region r = region)) df"
    by (rule df_filtered_eq)
  have has: "snd (aggregate_sales (Some df) category region) \<longleftrightarrow>
               df_filtered df category region \<noteq> []"
    by (simp add: aggregate_sales_def Let_def)
  show ?thesis
    unfolding has unfolding eq by (auto simp: filter_empty_conv)
qed

theorem aggregate_sales_filter_rule_witness:
  "df_filtered example_table ''Furniture'' ''All Regions'' =
     [example_table ! 0, example_table ! 2] \<and>
   df_filtered example_table ''All Categories'' ''East'' =
     [example_table ! 1, example_table ! 2] \<and>
   df_filtered example_table ''All Categories'' ''All Regions'' = example_table \<and>
   df_filtered example_table ''Technology'' ''West'' = []"
  using aggregate_sales_filter_rule [of example_table "''Furniture''" "''All Regions''"]
    aggregate_sales_filter_rule [of example_table "''All Categories''" "''East''"]
    aggregate_sales_filter_rule [of example_table "''All Categories''" "''All Regions''"]
    aggregate_sales_filter_rule [of example_table "''Technology''" "''West''"]
  by (simp add: example_table_def)

text \<open>
  Claim C10. When \<open>aggregate_sales\<close> reaches the resampling step, the slice
  \<open>ts_monthly[ts_monthly.index.min():]\<close> removes nothing: the result is the plain month-end
  resample-and-sum of the kept rows.
\<close>

theorem trimming_slice_is_identity:
  assumes "df_filtered rows category region \<noteq> []"
  shows "aggregate_sales (Some rows) category region =
           (resample_ME_sum (sales_by_date (df_filtered rows category region)), True) \<and>
         slice_from
           (index_min (map fst (resample_ME_sum (sales_by_date (df_filtered rows category region)))))
           (resample_ME_sum (sales_by_date (df_filtered rows category region))) =
         resample_ME_sum (sales_by_date (df_filtered rows category region))"
  using assms by (simp add: aggregate_sales_def Let_def slice_from_index_min)

theorem trimming_slice_is_identity_witness:
  "df_filtered example_table ''All Categories'' ''All Regions'' \<noteq> [] \<and>
   aggregate_sales (Some example_table) ''All Categories'' ''All Regions'' =
     (resample_ME_sum (sales_by_date example_table), True) \<and>
   length (resample_ME_sum (sales_by_date example_table)) = 5"
proof -
  have ne: "df_filtered example_table ''All Categories'' ''All Regions'' \<noteq> []"
    by (simp add: df_filtered_def example_table_def Let_def)
  have f: "df_filtered example_table ''All Categories'' ''All Regions'' = example_table"
    by (simp add: df_filtered_def Let_def)
  have len: "length (resample_ME_sum (sales_by_date example_table)) = 5"
    by (simp add: resample_ME_sum_def sales_by_date_def example_table_def date_lt_def
        month_index_def Let_def length_foldl_add_to_bin)
  show ?thesis using trimming_slice_is_identity [OF ne] ne len by (simp add: f)
qed

text \<open>
  Claim C2, as the code has it. \<open>create_features_for_ml\<close> returns one feature row per
  series entry, in the same order, with the calendar features of that entry's date, and the
  target column equal to the sales. For every index \<open>i \<ge> 12\<close> the lag is the sales twelve
  entries earlier. When the series has at least 13 entries, the first twelve lags are all
  back-filled with the earliest sales value; when it has at most 12 entries there is no
  value to fill from and every lag stays missing.
\<close>

theorem create_features_rows_and_lag:
  "length (fst (create_features_for_ml ts)) = length ts \<and>
   snd (create_features_for_ml ts) = map (\<lambda>e. Some (snd e)) ts \<and>
   (\<forall>i<length ts.
      feat_month (fst (create_features_for_ml ts) ! i) = month (fst (ts ! i)) \<and>
      feat_year (fst (create_features_for_ml ts) ! i) = year (fst (ts ! i)) \<and>
      feat_quarter (fst (create_features_for_ml ts) ! i) = quarter_of (month (fst (ts ! i)))) \<and>
   (\<forall>i. 12 \<le> i \<and> i < length ts \<longrightarrow>
      lag_12 (fst (create_features_for_ml ts) ! i) = Some (snd (ts ! (i - 12)))) \<and>
   (13 \<le> length ts \<longrightarrow>
      (\<forall>i<12. lag_12 (fst (create_features_for_ml ts) ! i) = Some (snd (ts ! 0)))) \<and>
   (length ts \<le> 12 \<longrightarrow>
      (\<forall>i<length ts. lag_12 (fst (create_features_for_ml ts) ! i) = None))"
proof -
  have len: "length (fst (create_features_for_ml ts)) = length ts"
    by (simp add: create_features_unfold length_lag_col)
  have y: "snd (create_features_for_ml ts) = map (\<lambda>e. Some (snd e)) ts"
    by (simp add: create_features_unfold comp_def)
  have cal: "\<forall>i<length ts.
      feat_month (fst (create_features_for_ml ts) ! i) = month (fst (ts ! i)) \<and>
      feat_year (fst (create_features_for_ml ts) ! i) = year (fst (ts ! i)) \<and>
      feat_quarter (fst (create_features_for_ml ts) ! i) = quarter_of (month (fst (ts ! i)))"
    by (simp add: features_nth)
  have late: "\<forall>i. 12 \<le> i \<and> i < length ts \<longrightarrow>
      lag_12 (fst (create_features_for_ml ts) ! i) = Some (snd (ts ! (i - 12)))"
    by (simp add: features_lag_late)
  have early: "13 \<le> length ts \<longrightarrow>
      (\<forall>i<12. lag_12 (fst (create_features_for_ml ts) ! i) = Some (snd (ts ! 0)))"
    by (simp add: features_lag_early)
  have short: "length ts \<le> 12 \<longrightarrow>
      (\<forall>i<length ts. lag_12 (fst (create_features_for_ml ts) ! i) = None)"
    by (simp add: features_lag_short)
  show ?thesis by (intro conjI; fact len y cal late early short)
qed

theorem create_features_rows_and_lag_witness:
  "length example_series = 13 \<and>
   length (fst (create_features_for_ml example_series)) = 13 \<and>
   lag_12 (fst (create_features_for_ml example_series) ! 12) = Some 1 \<and>
   lag_12 (fst (create_features_for_ml example_series) ! 5) = Some 1 \<and>
   feat_quarter (fst (create_features_for_ml example_series) ! 5) = 2"
proof -
  have L: "length example_series = 13" by (simp add: example_series_def)
  have e0: "snd (example_series ! 0) = 1" and m5: "month (fst (example_series ! 5)) = 6"
    by (simp_all add: example_series_unfold month_end_def)
  note t = create_features_rows_and_lag [of example_series]
  have a: "length (fst (create_features_for_ml example_series)) = 13" using t L by simp
  have b: "lag_12 (fst (create_features_for_ml example_series) ! 12) = Some 1"
    using t L e0 by simp
  have c: "lag_12 (fst (create_features_for_ml example_series) ! 5) = Some 1"
    using t L e0 by simp
  have d: "feat_quarter (fst (create_features_for_ml example_series) ! 5) = 2"
    using t L m5 by (simp add: quarter_of_def)
  show ?thesis using L a b c d by simp
qed

text \<open>
  Claim C2 as stated fails on a short series: with a single entry the lag of row 0 is
  missing, not back-filled.
\<close>

theorem lag_12_short_series_counterexample:
  "length [(\<lparr>year = 2014, month = 1, day = 31\<rparr>, 5 :: real)] = 1 \<and>
   lag_12 (fst (create_features_for_ml [(\<lparr>year = 2014, month = 1, day = 31\<rparr>, 5)]) ! 0) = None"
  by (simp add: create_features_for_ml_def shift_def Let_def)

text \<open>
  Claim C3, as the code has it. For a series of at least 13 entries each of the first
  twelve lags equals the first sales value \<open>sales[0]\<close>, which is the lag of row 12.
\<close>

theorem lag_12_backfill_first_value:
  assumes "13 \<le> length ts" "i < 12"
  shows "lag_12 (fst (create_features_for_ml ts) ! i) = Some (snd (ts ! 0))"
  using assms by (rule features_lag_early)

theorem lag_12_backfill_first_value_witness:
  "13 \<le> length example_series \<and> (11::nat) < 12 \<and>
   lag_12 (fst (create_features_for_ml example_series) ! 11) = Some 1"
proof -
  have L: "13 \<le> length example_series" by (simp add: example_series_def)
  have e0: "snd (example_series ! 0) = 1" by (simp add: example_series_unfold)
  show ?thesis using lag_12_backfill_first_value [OF L, of 11] L e0 by simp
qed

text \<open>
  Claim C3 as stated names \<open>sales[12]\<close>: on the thirteen-month series with sales
  1, ..., 13 the lag of row 0 is 1, while \<open>sales[12]\<close> is 13.
\<close>

theorem lag_12_backfill_counterexample:
  "13 \<le> length example_series \<and>
   lag_12 (fst (create_features_for_ml example_series) ! 0) = Some 1 \<and>
   snd (example_series ! 12) = 13 \<and>
   lag_12 (fst (create_features_for_ml example_series) ! 0) \<noteq> Some (snd (example_series ! 12))"
proof -
  have L: "length example_series = 13" by (simp add: example_series_def)
  have e0: "snd (example_series ! 0) = 1" and e12: "snd (example_series ! 12) = 13"
    by (simp_all add: example_series_unfold)
  have "lag_12 (fst (create_features_for_ml example_series) ! 0) = Some 1"
    using features_lag_early [of example_series 0] L e0 by simp
  then show ?thesis using L e12 by simp
qed

text \<open>
  Claim C4. The MAPE is the mean of \<open>|actual - predicted| / actual\<close> times 100 over
  exactly the indices whose actual is not zero; a month with a zero actual changes neither
  the sum nor the count. For \<open>actual = [0, 100, 200]\<close> and \<open>predicted = [10, 110, 190]\<close>
  only the indices 1 and 2 enter, which gives 7.5.
\<close>

theorem mape_excludes_zero_actuals:
  "mape actual predicted =
     (if {i. i < length actual \<and> i < length predicted \<and> actual ! i \<noteq> 0} = {}
      then Inl AllActualsZero
      else Inr ((\<Sum>i | i < length actual \<and> i < length predicted \<and> actual ! i \<noteq> 0.
                   \<bar>actual ! i - predicted ! i\<bar> / actual ! i)
                / real (card {i. i < length actual \<and> i < length predicted \<and> actual ! i \<noteq> 0})
                * 100)) \<and>
   mape (0 # actual) (p # predicted) = mape actual predicted \<and>
   mape [0, 100, 200] [10, 110, 190] = mape [100, 200] [110, 190] \<and>
   mape [0, 100, 200] [10, 110, 190] = Inr ((\<bar>100 - 110\<bar> / 100 + \<bar>200 - 190\<bar> / 200) / 2 * 100) \<and>
   mape [0, 100, 200] [10, 110, 190] = Inr (15 / 2)"
proof -
  have drop: "mape (0 # actual) (p # predicted) = mape actual predicted"
    by (simp add: mape_def)
  have ex: "mape [0, 100, 200] [10, 110, 190] = Inr (15 / 2)"
    by (simp add: mape_def)
  have ex2: "mape [100, 200] [110, 190] = Inr (15 / 2)"
    by (simp add: mape_def)
  show ?thesis using mape_index_form [of actual predicted] drop ex ex2 by simp
qed

text \<open>
  Claim C5, as the code has it. For a model type other than \<open>sarima\<close> and \<open>xgboost\<close>,
  both endpoints first check the load and aggregate the selection: a failed load gives the
  load error and a selection without rows gives the no-data result. Only when there is
  data do both endpoints raise the HTTP 400 error about the model type, whatever the
  model functions are, and that error differs from the other two outcomes.
\<close>

theorem unknown_model_type_rejected:
  assumes "model_type \<noteq> ''sarima''" "model_type \<noteq> ''xgboost''"
  shows "(DF_RAW st = None \<longrightarrow>
            sales_forecast_endpoint m st model_type category region steps = load_error st \<and>
            sales_evaluation_endpoint m st model_type category region = load_error st) \<and>
         (\<forall>rows. DF_RAW st = Some rows \<and> df_filtered rows category region = [] \<longrightarrow>
            sales_forecast_endpoint m st model_type category region steps =
              no_data_found category region \<and>
            sales_evaluation_endpoint m st model_type category region =
              no_data_found category region) \<and>
         (\<forall>rows. DF_RAW st = Some rows \<and> df_filtered rows category region \<noteq> [] \<longrightarrow>
            sales_forecast_endpoint m st model_type category region steps = bad_model_type \<and>
            sales_evaluation_endpoint m st model_type category region = bad_model_type) \<and>
         bad_model_type \<noteq> load_error st \<and> bad_model_type \<noteq> no_data_found category region \<and>
         (\<exists>detail. bad_model_type = HTTPException 400 detail)"
proof -
  have c1: "DF_RAW st = None \<longrightarrow>
            sales_forecast_endpoint m st model_type category region steps = load_error st \<and>
            sales_evaluation_endpoint m st model_type category region = load_error st"
    by (simp add: forecast_endpoint_not_loaded evaluation_endpoint_not_loaded)
  have c2: "\<forall>rows. DF_RAW st = Some rows \<and> df_filtered rows category region = [] \<longrightarrow>
            sales_forecast_endpoint m st model_type category region steps =
              no_data_found category region \<and>
            sales_evaluation_endpoint m st model_type category region =
              no_data_found category region"
    by (simp add: forecast_endpoint_no_data evaluation_endpoint_no_data)
  have c3: "\<forall>rows. DF_RAW st = Some rows \<and> df_filtered rows category region \<noteq> [] \<longrightarrow>
            sales_forecast_endpoint m st model_type category region steps = bad_model_type \<and>
            sales_evaluation_endpoint m st model_type category region = bad_model_type"
    using assms by (simp add: forecast_endpoint_with_data evaluation_endpoint_with_data)
  have c6: "\<exists>detail. bad_model_type = HTTPException 400 detail"
    by (simp add: bad_model_type_def)
  show ?thesis
    by (intro conjI; fact c1 c2 c3 c6 bad_model_type_distinct)
qed

theorem unknown_model_type_rejected_witness:
  "''bogus'' \<noteq> ''sarima'' \<and> ''bogus'' \<noteq> ''xgboost'' \<and>
   DF_RAW example_state = Some example_table \<and>
   df_filtered example_table ''Furniture'' ''West'' \<noteq> [] \<and>
   sales_forecast_endpoint example_strategies example_state ''bogus'' ''Furniture'' ''West'' 12 =
     HTTPException 400 (PStr (''model_type debe ser '' @ [CHR 0x27] @ ''sarima'' @ [CHR 0x27]
                              @ '' o '' @ [CHR 0x27] @ ''xgboost'' @ [CHR 0x27])) \<and>
   sales_evaluation_endpoint example_strategies example_state ''bogus'' ''Furniture'' ''West'' =
     HTTPException 400 (PStr (''model_type debe ser '' @ [CHR 0x27] @ ''sarima'' @ [CHR 0x27]
                              @ '' o '' @ [CHR 0x27] @ ''xgboost'' @ [CHR 0x27]))"
proof -
  have n1: "''bogus'' \<noteq> ''sarima''" and n2: "''bogus'' \<noteq> ''xgboost''" by simp_all
  have st: "DF_RAW example_state = Some example_table" by (simp add: example_state_def)
  note t = unknown_model_type_rejected [OF n1 n2, of example_state example_strategies
      "''Furniture''" "''West''" 12]
  show ?thesis using t st example_filters(2) by (simp add: bad_model_type_def)
qed

text \<open>
  Claim C5 as stated fails: with the unknown model type \<open>bogus\<close> and the selection
  Technology/West, both offered by the filter lists but without a common row, the endpoints
  return the no-data result instead of rejecting the model type.
\<close>

theorem unknown_model_type_counterexample:
  "''bogus'' \<noteq> ''sarima'' \<and> ''bogus'' \<noteq> ''xgboost'' \<and>
   ''Technology'' \<in> set (CATEGORIES example_table) \<and> ''West'' \<in> set (REGIONS example_table) \<and>
   sales_forecast_endpoint example_strategies example_state ''bogus'' ''Technology'' ''West'' 12 =
     Return (PDict [(''status'', PStr ''error''),
                    (''message'', PStr ''No data found for Technology/West.'')]) \<and>
   sales_evaluation_endpoint example_strategies example_state ''bogus'' ''Technology'' ''West'' =
     Return (PDict [(''status'', PStr ''error''),
                    (''message'', PStr ''No data found for Technology/West.'')])"
proof -
  have st: "DF_RAW example_state = Some example_table" by (simp add: example_state_def)
  have a: "''Technology'' \<in> set (CATEGORIES example_table)"
    and b: "''West'' \<in> set (REGIONS example_table)"
    by (simp_all add: CATEGORIES_def REGIONS_def example_table_def)
  show ?thesis
    using a b forecast_endpoint_no_data [OF st example_filters(1)]
      evaluation_endpoint_no_data [OF st example_filters(1)]
    by (simp add: no_data_found_def)
qed

text \<open>
  Claim C6. When no row of the loaded table matches the selection, \<open>aggregate_sales\<close>
  returns the empty series with \<open>False\<close>, and both endpoints return (not raise) the dict
  with status \<open>error\<close> and the message \<open>No data found for category/region.\<close>
\<close>

theorem no_matching_rows_is_a_normal_result:
  assumes "DF_RAW st = Some rows"
      and "\<not> (\<exists>r\<in>set rows. (category = ''All Categories'' \<or> Category r = category) \<and>
                             (region = ''All Regions'' \<or> Region r = region))"
  shows "aggregate_sales (Some rows) category region = ([], False) \<and>
         sales_forecast_endpoint m st model_type category region steps =
           Return (PDict [(''status'', PStr ''error''),
                          (''message'',
                           PStr (''No data found for '' @ category @ ''/'' @ region @ ''.''))]) \<and>
         sales_evaluation_endpoint m st model_type category region =
           Return (PDict [(''status'', PStr ''error''),
                          (''message'',
                           PStr (''No data found for '' @ category @ ''/'' @ region @ ''.''))])"
proof -
  have empty: "df_filtered rows category region = []"
    using assms(2) unfolding df_filtered_eq by (simp add: filter_empty_conv)
  show ?thesis
    using aggregate_sales_empty [OF empty] forecast_endpoint_no_data [OF assms(1) empty]
      evaluation_endpoint_no_data [OF assms(1) empty]
    by (simp add: no_data_found_def)
qed

theorem no_matching_rows_is_a_normal_result_witness:
  "DF_RAW example_state = Some example_table \<and>
   list_all (\<lambda>r. \<not> ((''Technology'' = ''All Categories'' \<or> Category r = ''Technology'') \<and>
                      (''West'' = ''All Regions'' \<or> Region r = ''West''))) example_table \<and>
   aggregate_sales (Some example_table) ''Technology'' ''West'' = ([], False) \<and>
   sales_forecast_endpoint example_strategies example_state ''sarima'' ''Technology'' ''West'' 12 =
     Return (PDict [(''status'', PStr ''error''),
                    (''message'', PStr ''No data found for Technology/West.'')]) \<and>
   sales_evaluation_endpoint example_strategies example_state ''xgboost'' ''Technology'' ''West'' =
     Return (PDict [(''status'', PStr ''error''),
                    (''message'', PStr ''No data found for Technology/West.'')])"
proof -
  have st: "DF_RAW example_state = Some example_table" by (simp add: example_state_def)
  have la: "list_all (\<lambda>r. \<not> ((''Technology'' = ''All Categories'' \<or> Category r = ''Technology'') \<and>
                      (''West'' = ''All Regions'' \<or> Region r = ''West''))) example_table"
    by (simp add: example_table_def)
  have none: "\<not> (\<exists>r\<in>set example_table.
                    (''Technology'' = ''All Categories'' \<or> Category r = ''Technology'') \<and>
                    (''West'' = ''All Regions'' \<or> Region r = ''West''))"
    using la unfolding list_all_iff by blast
  show ?thesis
    using no_matching_rows_is_a_normal_result [OF st none, of example_strategies "''sarima''" 12]
      no_matching_rows_is_a_normal_result [OF st none, of example_strategies "''xgboost''" 12]
      st la
    by simp
qed

text \<open>
  Claim C7, as the code has it. When the load fails (\<open>load_data\<close> returns no table), the
  reason it returns is not \<open>Success\<close> (it is one of the two error messages), the globals
  hold no table and that reason, and every request to the three routes that read the table
  (\<open>/config/filters\<close>, \<open>/sales/forecast\<close>, \<open>/sales/evaluation\<close>) raises an HTTP 500 error
  whose detail ends with the stored reason. The root route does not read the table and
  keeps answering with its welcome message.
\<close>

theorem failed_load_stops_data_endpoints:
  assumes "fst (load_data FILE_NAME read_excel to_datetime) = None"
  shows "snd (load_data FILE_NAME read_excel to_datetime) \<noteq> ''Success'' \<and>
         (snd (load_data FILE_NAME read_excel to_datetime) =
            ''Error: Archivo no encontrado en: '' @ FILE_NAME \<or>
          (\<exists>msg. snd (load_data FILE_NAME read_excel to_datetime) =
                   ''Error al cargar datos: '' @ msg)) \<and>
         DF_RAW (startup FILE_NAME read_excel to_datetime) = None \<and>
         STATUS (startup FILE_NAME read_excel to_datetime) =
           snd (load_data FILE_NAME read_excel to_datetime) \<and>
         handle m (startup FILE_NAME read_excel to_datetime) GetConfigFilters =
           HTTPException 500
             (PStr (''Datos no cargados. Raz'' @ [char_of (195::nat), char_of (179::nat)] @ ''n: ''
                    @ snd (load_data FILE_NAME read_excel to_datetime))) \<and>
         handle m (startup FILE_NAME read_excel to_datetime)
             (GetSalesForecast model_type category region steps) =
           HTTPException 500
             (PStr (''Error de carga de datos inicial: ''
                    @ snd (load_data FILE_NAME read_excel to_datetime))) \<and>
         handle m (startup FILE_NAME read_excel to_datetime)
             (GetSalesEvaluation model_type category region) =
           HTTPException 500
             (PStr (''Error de carga de datos inicial: ''
                    @ snd (load_data FILE_NAME read_excel to_datetime))) \<and>
         handle m (startup FILE_NAME read_excel to_datetime) GetRoot = read_root"
proof -
  define st where "st = startup FILE_NAME read_excel to_datetime"
  define reason where "reason = snd (load_data FILE_NAME read_excel to_datetime)"
  obtain e where e: "load_data FILE_NAME read_excel to_datetime = load_failure FILE_NAME e"
    using load_data_failed [OF assms] by auto
  have c1: "reason \<noteq> ''Success''"
    and c2: "reason = ''Error: Archivo no encontrado en: '' @ FILE_NAME \<or>
             (\<exists>msg. reason = ''Error al cargar datos: '' @ msg)"
    using load_failure_result [of FILE_NAME e] by (simp_all add: reason_def e)
  have c3: "DF_RAW st = None" using assms by (simp add: st_def startup_fields)
  have c4: "STATUS st = reason" by (simp add: st_def reason_def startup_fields)
  have c5: "handle m st GetConfigFilters =
           HTTPException 500
             (PStr (''Datos no cargados. Raz'' @ [char_of (195::nat), char_of (179::nat)] @ ''n: ''
                    @ reason))"
    using c3 c4 by (simp add: get_filters_def)
  have c6: "handle m st (GetSalesForecast model_type category region steps) =
           HTTPException 500 (PStr (''Error de carga de datos inicial: '' @ reason))"
    using c3 c4 by (simp add: forecast_endpoint_not_loaded load_error_def)
  have c7: "handle m st (GetSalesEvaluation model_type category region) =
           HTTPException 500 (PStr (''Error de carga de datos inicial: '' @ reason))"
    using c3 c4 by (simp add: evaluation_endpoint_not_loaded load_error_def)
  have c8: "handle m st GetRoot = read_root" by simp
  show ?thesis
    unfolding st_def [symmetric] reason_def [symmetric]
    by (intro conjI; fact c1 c2 c3 c4 c5 c6 c7 c8)
qed

theorem failed_load_stops_data_endpoints_witness:
  "fst (load_data ''data/US Superstore data.xls''
          (Inl FileNotFoundError :: exn + string list \<times> unit) (\<lambda>cols cells. Inr [])) = None \<and>
   STATUS (startup ''data/US Superstore data.xls''
          (Inl FileNotFoundError :: exn + string list \<times> unit) (\<lambda>cols cells. Inr [])) =
     ''Error: Archivo no encontrado en: data/US Superstore data.xls'' \<and>
   handle example_strategies
     (startup ''data/US Superstore data.xls''
        (Inl FileNotFoundError :: exn + string list \<times> unit) (\<lambda>cols cells. Inr []))
     (GetSalesForecast ''sarima'' ''All Categories'' ''All Regions'' 12) =
     HTTPException 500
       (PStr ''Error de carga de datos inicial: Error: Archivo no encontrado en: data/US Superstore data.xls'')"
proof -
  have f: "fst (load_data ''data/US Superstore data.xls''
          (Inl FileNotFoundError :: exn + string list \<times> unit) (\<lambda>cols cells. Inr [])) = None"
    by (simp add: load_data_def load_failure_def)
  have s: "snd (load_data ''data/US Superstore data.xls''
          (Inl FileNotFoundError :: exn + string list \<times> unit) (\<lambda>cols cells. Inr [])) =
          ''Error: Archivo no encontrado en: data/US Superstore data.xls''"
    by (simp add: load_data_def load_failure_def)
  show ?thesis
    using failed_load_stops_data_endpoints [OF f, of example_strategies "''sarima''"
        "''All Categories''" "''All Regions''" 12] f
    unfolding s by simp
qed

text \<open>
  Claim C7 as stated says every endpoint fails: after a failed load the root route still
  returns its welcome message.
\<close>

theorem failed_load_root_counterexample:
  "DF_RAW (startup ''data/US Superstore data.xls''
          (Inl FileNotFoundError :: exn + string list \<times> unit) (\<lambda>cols cells. Inr [])) = None \<and>
   STATUS (startup ''data/US Superstore data.xls''
          (Inl FileNotFoundError :: exn + string list \<times> unit) (\<lambda>cols cells. Inr [])) \<noteq> ''Success'' \<and>
   handle example_strategies
     (startup ''data/US Superstore data.xls''
        (Inl FileNotFoundError :: exn + string list \<times> unit) (\<lambda>cols cells. Inr []))
     GetRoot =
     Return (PDict [(''message'',
       PStr ''Welcome to the Retail Forecasting API. Access /docs for documentation.'')])"
  by (simp add: startup_def load_data_def load_failure_def read_root_def)

text \<open>
  Claim C9. In every successful forecast response (a returned dict whose status is
  \<open>success\<close>), \<open>history.index\<close> has one entry per month of the history and each entry is a
  string of the form \<open>YYYY-MM-DD\<close>, and every forecast record has a \<open>Date\<close> field which is
  such a string too. The dates of the table and of the frames the model functions return
  are taken to be timestamps, that is calendar dates.
\<close>

theorem forecast_response_dates_are_strings:
  assumes "DF_RAW st = Some rows"
      and "\<forall>r\<in>set rows. wf_date (Order_Date r)"
      and "forecast_dates_wf m"
      and "sales_forecast_endpoint m st model_type category region steps = Return (PDict body)"
      and "dict_get body ''status'' = Inr (PStr ''success'')"
  shows "\<exists>idx dates.
           history_index body = Some idx \<and> list_all is_date_string idx \<and>
           length idx = length (fst (aggregate_sales (Some rows) category region)) \<and>
           forecast_dates body = Some dates \<and> list_all is_date_string dates"
proof -
  define f where "f = df_filtered rows category region"
  define ts where "ts = resample_ME_sum (sales_by_date f)"
  from forecast_success_body [OF assms(1,4,5)]
  obtain fc s where ne: "f \<noteq> []"
    and call: "(model_type = ''sarima'' \<and> get_sarima_forecast m ts steps = (Some fc, s)) \<or>
               (model_type = ''xgboost'' \<and> get_xgboost_forecast m ts steps = (Some fc, s))"
    and body: "body = [(''status'', PStr ''success''), (''model_used'', PStr model_type),
                       (''history'', history_json ts), (''forecast'', forecast_json fc)]"
    unfolding f_def ts_def by blast
  have wf: "\<forall>r\<in>set f. wf_date (Order_Date r)"
    using assms(2) by (simp add: f_def df_filtered_eq)
  have ts_eq: "ts = monthly_totals f"
    unfolding ts_def by (rule resample_ME_sum_monthly_totals [OF ne wf])
  have agg: "fst (aggregate_sales (Some rows) category region) = ts"
    using aggregate_sales_unsliced [of rows category region] ne by (simp add: f_def ts_def)
  have hist_wf: "\<forall>e\<in>set ts. wf_date (fst e)"
    unfolding ts_eq by (rule monthly_totals_dates_wf [OF ne wf])
  have fc_wf: "\<forall>r\<in>set fc. wf_date (fc_date r)"
    using call assms(3) unfolding forecast_dates_wf_def list_all_iff by blast
  have h1: "history_index body = Some (map (\<lambda>e. PStr (strftime (fst e))) ts)"
    unfolding body by (rule history_index_history_json)
  have h2: "list_all is_date_string (map (\<lambda>e. PStr (strftime (fst e))) ts)"
    using hist_wf by (simp add: list_all_iff is_date_string_def strftime_format)
  have f1: "forecast_dates body = Some (map (\<lambda>r. PStr (strftime (fc_date r))) fc)"
    unfolding body by (rule forecast_dates_forecast_json)
  have f2: "list_all is_date_string (map (\<lambda>r. PStr (strftime (fc_date r))) fc)"
    using fc_wf by (simp add: list_all_iff is_date_string_def strftime_format)
  show ?thesis using h1 h2 f1 f2 agg by simp
qed

theorem forecast_response_dates_are_strings_witness:
  "DF_RAW example_state = Some example_table \<and>
   list_all (\<lambda>r. wf_date (Order_Date r)) example_table \<and>
   forecast_dates_wf example_strategies \<and>
   sales_forecast_endpoint example_strategies example_state ''sarima'' ''Furniture''
     ''All Regions'' 12 = Return (PDict example_body) \<and>
   dict_get example_body ''status'' = Inr (PStr ''success'') \<and>
   history_index example_body = Some [PStr ''2013-12-31'', PStr ''2014-01-31''] \<and>
   forecast_dates example_body = Some [PStr ''2014-05-31''] \<and>
   list_all is_date_string [PStr ''2013-12-31'', PStr ''2014-01-31'', PStr ''2014-05-31'']"
proof -
  have st: "DF_RAW example_state = Some example_table" by (simp add: example_state_def)
  have wf: "\<forall>r\<in>set example_table. wf_date (Order_Date r)"
    using example_table_wf by (simp add: list_all_iff)
  have status: "dict_get example_body ''status'' = Inr (PStr ''success'')"
    by (simp add: example_body_def)
  have hi: "history_index example_body = Some [PStr ''2013-12-31'', PStr ''2014-01-31'']"
    by (simp add: history_index_def example_body_def)
  have fd: "forecast_dates example_body = Some [PStr ''2014-05-31'']"
    by (simp add: forecast_dates_def record_date_def example_body_def)
  from forecast_response_dates_are_strings
    [OF st wf example_strategies_wf example_forecast_response status]
  obtain idx dates where i1: "history_index example_body = Some idx"
    and i2: "list_all is_date_string idx"
    and d1: "forecast_dates example_body = Some dates"
    and d2: "list_all is_date_string dates"
    by blast
  have "idx = [PStr ''2013-12-31'', PStr ''2014-01-31'']" using i1 hi by simp
  moreover have "dates = [PStr ''2014-05-31'']" using d1 fd by simp
  ultimately have "list_all is_date_string
               [PStr ''2013-12-31'', PStr ''2014-01-31'', PStr ''2014-05-31'']"
    using i2 d2 by simp
  then show ?thesis
    using st example_table_wf example_strategies_wf example_forecast_response status hi fd
    by simp
qed

end
